theory Spec2Isabelle
  imports Main "HOL-Library.Monad_Syntax"
begin

section \<open>JavaScript values and the string operations the booking code uses\<close>

text \<open>
  The request body and the decoded form data are JSON values. Numbers are kept as
  integers: the handler only ever asks whether a number is truthy (non-zero) and whether
  a value is a string, so the fractional part plays no role.
\<close>

datatype jsval =
    JUndefined
  | JNull
  | JBool bool
  | JNumber int
  | JString string
  | JArray "jsval list"
  | JObject "(string \<times> jsval) list"

text \<open>JavaScript truthiness, as the tests \<open>!name\<close>, \<open>req.body.encrypted\<close> read it.\<close>

fun truthy :: "jsval \<Rightarrow> bool" where
  "truthy JUndefined = False"
| "truthy JNull = False"
| "truthy (JBool b) = b"
| "truthy (JNumber n) = (n \<noteq> 0)"
| "truthy (JString s) = (s \<noteq> [])"
| "truthy (JArray xs) = True"
| "truthy (JObject kvs) = True"

text \<open>
  Property read \<open>v.k\<close> for the field names of the form and for \<open>encrypted\<close>: an object
  gives the stored value or \<open>undefined\<close>; arrays, strings, numbers and booleans have no
  property of these names.
\<close>

fun get :: "jsval \<Rightarrow> string \<Rightarrow> jsval" where
  "get (JObject kvs) k = (case map_of kvs k of Some v \<Rightarrow> v | None \<Rightarrow> JUndefined)"
| "get v k = JUndefined"

text \<open>
  Strings are lists of 8-bit characters. White space is the ASCII part of what
  \<open>String.prototype.trim\<close> and the regular expression class \<open>\s\<close> recognise; letters
  are the ASCII letters.
\<close>

definition is_space :: "char \<Rightarrow> bool" where
  "is_space c = (c = CHR '' '' \<or> c = CHR 0x09 \<or> c = CHR 0x0A \<or> c = CHR 0x0B
                 \<or> c = CHR 0x0C \<or> c = CHR 0x0D)"

definition upper_letters :: string where
  "upper_letters = ''ABCDEFGHIJKLMNOPQRSTUVWXYZ''"

definition lower_letters :: string where
  "lower_letters = ''abcdefghijklmnopqrstuvwxyz''"

definition is_upper :: "char \<Rightarrow> bool" where
  "is_upper c = (c \<in> set upper_letters)"

definition is_lower :: "char \<Rightarrow> bool" where
  "is_lower c = (c \<in> set lower_letters)"

definition is_digit :: "char \<Rightarrow> bool" where
  "is_digit c = (c \<in> set ''0123456789'')"

definition lower_char :: "char \<Rightarrow> char" where
  "lower_char c = (case map_of (zip upper_letters lower_letters) c of Some d \<Rightarrow> d | None \<Rightarrow> c)"

definition toLowerCase :: "string \<Rightarrow> string" where
  "toLowerCase s = map lower_char s"

definition trim :: "string \<Rightarrow> string" where
  "trim s = rev (dropWhile is_space (rev (dropWhile is_space s)))"

text \<open>
  A method call \<open>v.trim()\<close> or \<open>v.toLowerCase()\<close> on a JSON value: only strings have the
  method; on anything else the call raises a TypeError, here \<open>None\<close>.
\<close>

fun call_method :: "(string \<Rightarrow> string) \<Rightarrow> jsval \<Rightarrow> string option" where
  "call_method f (JString s) = Some (f s)"
| "call_method f v = None"

text \<open>
  \<open>emailRegex = /^[^\s@]+@[^\s@]+\.[^\s@]+$/\<close>. No character of a match is white space
  and exactly one is \<open>@\<close>; the part before it is non-empty and the part after it has a dot
  that is neither its first nor its last character.
\<close>

definition not_space_at :: "char \<Rightarrow> bool" where
  "not_space_at c = (\<not> is_space c \<and> c \<noteq> CHR ''@'')"

definition emailRegex_test :: "string \<Rightarrow> bool" where
  "emailRegex_test s =
     (let local = takeWhile (\<lambda>c. c \<noteq> CHR ''@'') s;
          rest = dropWhile (\<lambda>c. c \<noteq> CHR ''@'') s
      in local \<noteq> [] \<and> list_all not_space_at local \<and> rest \<noteq> [] \<and>
         list_all not_space_at (tl rest) \<and>
         CHR ''.'' \<in> set (butlast (tl (tl rest))))"

text \<open>
  The client's \<open>/^[a-zA-Z\s]{2,50}$/\<close> and \<open>/^[\d\s\-\(\)\+]{10,15}$/\<close>: a length window
  and a character class.
\<close>

definition name_char :: "char \<Rightarrow> bool" where
  "name_char c = (is_lower c \<or> is_upper c \<or> is_space c)"

definition nameRegex_test :: "string \<Rightarrow> bool" where
  "nameRegex_test s = (2 \<le> length s \<and> length s \<le> 50 \<and> list_all name_char s)"

definition phone_char :: "char \<Rightarrow> bool" where
  "phone_char c = (is_digit c \<or> is_space c \<or> c = CHR ''-'' \<or> c = CHR ''('' \<or> c = CHR '')''
                   \<or> c = CHR ''+'')"

definition phoneRegex_test :: "string \<Rightarrow> bool" where
  "phoneRegex_test s = (10 \<le> length s \<and> length s \<le> 15 \<and> list_all phone_char s)"

section \<open>The surroundings of the handler\<close>

text \<open>
  Everything the code reads that is not an argument: the process environment, the clock,
  and the library calls whose code is not part of the repository (crypto-js, \<open>JSON\<close>,
  \<open>Date\<close>, Mongoose's casting, the database connection, the mail transport). Each is a
  field, so every theorem below holds whatever these do.
  \<^item> \<open>Date_getTime v\<close> is \<open>new Date(v).getTime()\<close> in milliseconds, \<open>None\<close> for NaN;
  \<^item> \<open>LocalTZA t isUTC\<close> is the offset of local time from UTC in milliseconds at the
    time value \<open>t\<close>, read as a UTC time value when \<open>isUTC\<close> holds and as a local one
    otherwise (the abstract operation of that name in the language standard; it varies
    with \<open>t\<close> where the zone has daylight saving); \<open>now_ms\<close> is the time value of
    \<open>new Date()\<close>;
  \<^item> \<open>AES_decrypt_Utf8 c k\<close> is \<open>CryptoJS.AES.decrypt(c, k).toString(CryptoJS.enc.Utf8)\<close>,
    \<open>None\<close> when either call throws; \<open>AES_encrypt s k\<close> is
    \<open>CryptoJS.AES.encrypt(s, k).toString()\<close>;
  \<^item> \<open>JSON_parse s\<close> is \<open>None\<close> on a SyntaxError;
  \<^item> \<open>mongoose_cast v\<close> is Mongoose's cast of a non-string value to the schema type
    String when a document is built, \<open>None\<close> for a CastError; \<open>mongoose_query v\<close> is
    what a non-string value means as the condition on a String path in a query (an array,
    for one, is read as \<open>$in\<close>): the test it puts on the stored string, \<open>None\<close> for a
    CastError; \<open>template_text v\<close> is what a template literal makes of a non-string
    value;
  \<^item> \<open>db_find_ok\<close>, \<open>db_save_ok\<close> say whether the database answers the query and the
    save; \<open>sendMail_user_ok\<close>, \<open>sendMail_admin_ok\<close> whether the transport accepts the
    two messages.
\<close>

record world =
  env_SECRET_KEY :: "string option"
  env_EMAIL_USER :: "string option"
  env_EMAIL_PASS :: "string option"
  env_ADMIN_EMAIL :: "string option"
  env_REACT_APP_SECRET_KEY :: "string option"
  isProduction :: bool
  now_ms :: int
  LocalTZA :: "int \<Rightarrow> bool \<Rightarrow> int"
  Date_getTime :: "jsval \<Rightarrow> int option"
  AES_encrypt :: "string \<Rightarrow> string \<Rightarrow> string"
  AES_decrypt_Utf8 :: "jsval \<Rightarrow> string \<Rightarrow> string option"
  JSON_stringify :: "jsval \<Rightarrow> string"
  JSON_parse :: "string \<Rightarrow> jsval option"
  mongoose_cast :: "jsval \<Rightarrow> string option"
  mongoose_query :: "jsval \<Rightarrow> (string \<Rightarrow> bool) option"
  template_text :: "jsval \<Rightarrow> string"
  db_find_ok :: bool
  db_save_ok :: bool
  sendMail_user_ok :: bool
  sendMail_admin_ok :: bool

text \<open>\<open>process.env.X || d\<close> and \<open>!process.env.X\<close>: an unset and an empty variable are both falsy.\<close>

fun env_or :: "string option \<Rightarrow> string \<Rightarrow> string" where
  "env_or None d = d"
| "env_or (Some v) d = (if v = [] then d else v)"

fun env_set :: "string option \<Rightarrow> bool" where
  "env_set None = False"
| "env_set (Some v) = (v \<noteq> [])"

definition SECRET_KEY :: "world \<Rightarrow> string" where
  "SECRET_KEY w = env_or (env_SECRET_KEY w) ''EasyGoAdvisor@1974''"

definition client_SECRET_KEY :: "world \<Rightarrow> string" where
  "client_SECRET_KEY w = env_or (env_REACT_APP_SECRET_KEY w) ''EasyGoAdvisor@1974''"

section \<open>Bookings, the Record Store and the handler's state\<close>

text \<open>
  The twelve fields of the form are also the twelve paths of the Booking schema; the
  storage identity and the timestamps of a stored document are left out.
\<close>

record booking =
  name :: string
  email :: string
  phone :: string
  state :: string
  service :: string
  preferredDate :: string
  message :: string
  englishLevel :: string
  age :: string
  education :: string
  experience :: string
  visaType :: string

text \<open>The calls issued to the booking service, and the messages handed to the transport.\<close>

datatype db_call = FindOne jsval | Insert jsval

record mail =
  mail_from :: string
  mail_to :: string
  mail_subject :: string
  mail_text :: string

record server_state =
  store :: "booking list"
  db_calls :: "db_call list"
  outbox :: "mail list"

text \<open>
  What the client gets back: a status with a JSON body, either \<open>{error}\<close> or
  \<open>{success: true, message?, warning?}\<close>; or nothing from this handler, when an exception
  leaves the async function uncaught.
\<close>

datatype body = ErrorJson string | SuccessJson "string option" "string option"

datatype outcome = Response nat body | Unhandled

section \<open>The booking service over the Booking model\<close>

text \<open>
  A value that reaches a String path of the schema: a string is kept, anything else goes
  through Mongoose's cast.
\<close>

fun cast_String :: "world \<Rightarrow> jsval \<Rightarrow> string option" where
  "cast_String w (JString s) = Some s"
| "cast_String w v = mongoose_cast w v"

text \<open>\<open>new Booking(data)\<close>: every path of the schema is read from the data and cast.\<close>

definition new_Booking :: "world \<Rightarrow> jsval \<Rightarrow> booking option" where
  "new_Booking w d = do {
     n \<leftarrow> cast_String w (get d ''name'');
     e \<leftarrow> cast_String w (get d ''email'');
     p \<leftarrow> cast_String w (get d ''phone'');
     st \<leftarrow> cast_String w (get d ''state'');
     sv \<leftarrow> cast_String w (get d ''service'');
     pd \<leftarrow> cast_String w (get d ''preferredDate'');
     m \<leftarrow> cast_String w (get d ''message'');
     el \<leftarrow> cast_String w (get d ''englishLevel'');
     a \<leftarrow> cast_String w (get d ''age'');
     ed \<leftarrow> cast_String w (get d ''education'');
     ex \<leftarrow> cast_String w (get d ''experience'');
     vt \<leftarrow> cast_String w (get d ''visaType'');
     Some \<lparr> name = n, email = e, phone = p, state = st, service = sv, preferredDate = pd,
            message = m, englishLevel = el, age = a, education = ed, experience = ex,
            visaType = vt \<rparr>
   }"

text \<open>
  The schema's \<open>required: true\<close> on a String path: validation on save fails for an empty
  string. \<open>message\<close> is the one path that is not required.
\<close>

definition required_paths_ok :: "booking \<Rightarrow> bool" where
  "required_paths_ok b =
     (name b \<noteq> [] \<and> email b \<noteq> [] \<and> phone b \<noteq> [] \<and> state b \<noteq> [] \<and> service b \<noteq> [] \<and>
      preferredDate b \<noteq> [] \<and> englishLevel b \<noteq> [] \<and> age b \<noteq> [] \<and> education b \<noteq> [] \<and>
      experience b \<noteq> [] \<and> visaType b \<noteq> [])"

text \<open>
  A value as the condition on a String path in a query: a string asks for that very
  string, anything else is read by Mongoose.
\<close>

fun query_String :: "world \<Rightarrow> jsval \<Rightarrow> (string \<Rightarrow> bool) option" where
  "query_String w (JString s) = Some (\<lambda>x. x = s)"
| "query_String w v = mongoose_query w v"

text \<open>
  \<open>findOneBooking(query)\<close> with the query \<open>{preferredDate, email}\<close>: \<open>None\<close> when the call
  throws (no answer from the database, or a query value that cannot be cast), otherwise
  the first stored document whose two paths meet the query's conditions, if there is one.
\<close>

definition findOneBooking :: "world \<Rightarrow> booking list \<Rightarrow> jsval \<Rightarrow> booking option option" where
  "findOneBooking w bs query =
     (if \<not> db_find_ok w then None
      else do {
        pd \<leftarrow> query_String w (get query ''preferredDate'');
        e \<leftarrow> query_String w (get query ''email'');
        Some (find (\<lambda>b. pd (preferredDate b) \<and> e (email b)) bs)
      })"

text \<open>
  \<open>insertBooking(data)\<close>: \<open>None\<close> when the save throws (a cast or required-path failure, or
  no answer from the database), otherwise the store with the new document added.
\<close>

definition insertBooking :: "world \<Rightarrow> booking list \<Rightarrow> jsval \<Rightarrow> booking list option" where
  "insertBooking w bs d =
     (case new_Booking w d of
        None \<Rightarrow> None
      | Some b \<Rightarrow> if required_paths_ok b \<and> db_save_ok w then Some (bs @ [b]) else None)"

section \<open>The handler of POST /api/book-consultation\<close>

subsection \<open>Step 1: decrypt or parse the request data\<close>

definition decode_request :: "world \<Rightarrow> jsval \<Rightarrow> outcome + jsval" where
  "decode_request w req_body =
     (if truthy (get req_body ''encrypted'') then
        if SECRET_KEY w = [] then
          Inl (Response 500 (ErrorJson ''Server configuration error: encryption key missing.''))
        else
          (case AES_decrypt_Utf8 w (get req_body ''encrypted'') (SECRET_KEY w) of
             None \<Rightarrow> Inl (Response 400 (ErrorJson ''Invalid data format. Please try again.''))
           | Some decryptedString \<Rightarrow>
               if decryptedString = [] then
                 Inl (Response 400 (ErrorJson ''Invalid encrypted data. Decryption failed.''))
               else
                 (case JSON_parse w decryptedString of
                    None \<Rightarrow> Inl (Response 400 (ErrorJson ''Invalid data format. Please try again.''))
                  | Some formData \<Rightarrow> Inr formData))
      else Inr req_body)"

subsection \<open>Step 2: extract and validate the fields\<close>

text \<open>The object that is destructured, \<open>formData || {}\<close>.\<close>

definition form_fields :: "jsval \<Rightarrow> jsval" where
  "form_fields formData = (if truthy formData then formData else JObject [])"

definition required_fields :: "string list" where
  "required_fields = [''name'', ''email'', ''phone'', ''state'', ''service'', ''preferredDate'',
                      ''englishLevel'', ''age'', ''education'', ''experience'', ''visaType'']"

definition msPerDay :: int where
  "msPerDay = 86400000"

text \<open>
  A time value outside the range of \<open>Date\<close> is NaN, here \<open>None\<close> (the standard's
  TimeClip).
\<close>

definition TimeClip :: "int \<Rightarrow> int option" where
  "TimeClip t = (if \<bar>t\<bar> > 8640000000000000 then None else Some t)"

text \<open>
  \<open>setHours(0, 0, 0, 0)\<close> on a valid time value, as the standard defines it: the time
  value is taken to local time, cut down to the start of its day, taken back to UTC with
  the offset in force at that local midnight, and clipped to the range.
\<close>

definition setHours0 :: "world \<Rightarrow> int \<Rightarrow> int option" where
  "setHours0 w t =
     (let local = t + LocalTZA w t True;
          date = (local div msPerDay) * msPerDay
      in TimeClip (date - LocalTZA w date False))"

text \<open>\<open>a < b\<close> on two dates: false when either is NaN.\<close>

fun date_less :: "int option \<Rightarrow> int option \<Rightarrow> bool" where
  "date_less (Some a) (Some b) = (a < b)"
| "date_less a b = False"

definition date_policy :: "world \<Rightarrow> jsval \<Rightarrow> outcome option" where
  "date_policy w pd =
     (case Date_getTime w pd of
        None \<Rightarrow> Some (Response 400 (ErrorJson ''Invalid date format.''))
      | Some bookingDate \<Rightarrow>
          if date_less (setHours0 w bookingDate) (setHours0 w (now_ms w)) then
            Some (Response 400 (ErrorJson ''Cannot book a consultation in the past.''))
          else None)"

text \<open>\<open>None\<close> when the data passes; a non-string truthy \<open>email\<close> has no \<open>trim\<close>.\<close>

definition validate_fields :: "world \<Rightarrow> jsval \<Rightarrow> outcome option" where
  "validate_fields w fd =
     (if list_ex (\<lambda>k. \<not> truthy (get fd k)) required_fields then
        Some (Response 400
          (ErrorJson ''Missing required fields. Please fill in all required fields.''))
      else
        (case call_method trim (get fd ''email'') of
           None \<Rightarrow> Some Unhandled
         | Some e \<Rightarrow>
             if \<not> emailRegex_test e then Some (Response 400 (ErrorJson ''Invalid email format.''))
             else date_policy w (get fd ''preferredDate'')))"

subsection \<open>Step 3: check for conflicts in the database\<close>

text \<open>
  The query is built inside the \<open>try\<close>, so a failing \<open>email.toLowerCase()\<close> is answered
  like a failing query. The result is the response that ends the request, if any.
\<close>

definition conflict_query :: "jsval \<Rightarrow> jsval option" where
  "conflict_query fd = do {
     e \<leftarrow> call_method toLowerCase (get fd ''email'');
     Some (JObject [(''preferredDate'', get fd ''preferredDate''), (''email'', JString e)])
   }"

definition check_conflict :: "world \<Rightarrow> server_state \<Rightarrow> jsval \<Rightarrow> outcome option \<times> server_state" where
  "check_conflict w s fd =
     (case conflict_query fd of
        None \<Rightarrow>
          (Some (Response 500
             (ErrorJson ''Database error. Please try again later or contact support.'')), s)
      | Some q \<Rightarrow>
          (case findOneBooking w (store s) q of
             None \<Rightarrow>
               (Some (Response 500
                  (ErrorJson ''Database error. Please try again later or contact support.'')),
                s\<lparr>db_calls := db_calls s @ [FindOne q]\<rparr>)
           | Some (Some conflict) \<Rightarrow>
               (Some (Response 409 (ErrorJson
                  ''You have already booked a consultation for this date with this email.'')),
                s\<lparr>db_calls := db_calls s @ [FindOne q]\<rparr>)
           | Some None \<Rightarrow> (None, s\<lparr>db_calls := db_calls s @ [FindOne q]\<rparr>)))"

subsection \<open>Step 4: store the booking in the database\<close>

text \<open>The object handed to \<open>insertBooking\<close>; \<open>None\<close> when one of the method calls throws.\<close>

definition insert_data :: "jsval \<Rightarrow> jsval option" where
  "insert_data fd = do {
     n \<leftarrow> call_method trim (get fd ''name'');
     e \<leftarrow> call_method (\<lambda>s. trim (toLowerCase s)) (get fd ''email'');
     p \<leftarrow> call_method trim (get fd ''phone'');
     st \<leftarrow> call_method trim (get fd ''state'');
     m \<leftarrow> (if truthy (get fd ''message'') then call_method trim (get fd ''message'') else Some []);
     el \<leftarrow> call_method trim (get fd ''englishLevel'');
     a \<leftarrow> call_method trim (get fd ''age'');
     ed \<leftarrow> call_method trim (get fd ''education'');
     ex \<leftarrow> call_method trim (get fd ''experience'');
     vt \<leftarrow> call_method trim (get fd ''visaType'');
     Some (JObject
       [(''name'', JString n), (''email'', JString e), (''phone'', JString p),
        (''state'', JString st), (''service'', get fd ''service''),
        (''preferredDate'', get fd ''preferredDate''), (''message'', JString m),
        (''englishLevel'', JString el), (''age'', JString a), (''education'', JString ed),
        (''experience'', JString ex), (''visaType'', JString vt)])
   }"

definition store_booking :: "world \<Rightarrow> server_state \<Rightarrow> jsval \<Rightarrow> outcome option \<times> server_state" where
  "store_booking w s fd =
     (case insert_data fd of
        None \<Rightarrow>
          (Some (Response 500
             (ErrorJson ''Failed to save booking. Please try again later or contact support.'')), s)
      | Some d \<Rightarrow>
          (case insertBooking w (store s) d of
             None \<Rightarrow>
               (Some (Response 500 (ErrorJson
                  ''Failed to save booking. Please try again later or contact support.'')),
                s\<lparr>db_calls := db_calls s @ [Insert d]\<rparr>)
           | Some bs \<Rightarrow> (None, s\<lparr>store := bs, db_calls := db_calls s @ [Insert d]\<rparr>)))"

subsection \<open>Step 5: send the emails\<close>

text \<open>An environment variable inside a template literal.\<close>

fun env_text :: "string option \<Rightarrow> string" where
  "env_text None = ''undefined''"
| "env_text (Some v) = v"

definition nl :: string where
  "nl = [CHR 0x0A]"

text \<open>A value inside a template literal.\<close>

fun tpl :: "world \<Rightarrow> jsval \<Rightarrow> string" where
  "tpl w (JString s) = s"
| "tpl w v = template_text w v"

definition eligibility_lines :: "world \<Rightarrow> jsval \<Rightarrow> string" where
  "eligibility_lines w fd =
     (if truthy (get fd ''englishLevel'')
      then ''English Level: '' @ tpl w (get fd ''englishLevel'') @ nl else []) @
     (if truthy (get fd ''age'') then ''Age: '' @ tpl w (get fd ''age'') @ nl else []) @
     (if truthy (get fd ''education'')
      then ''Education: '' @ tpl w (get fd ''education'') @ nl else []) @
     (if truthy (get fd ''experience'')
      then ''Experience: '' @ tpl w (get fd ''experience'') @ nl else []) @
     (if truthy (get fd ''visaType'')
      then ''Visa Type: '' @ tpl w (get fd ''visaType'') @ nl else [])"

definition any_eligibility :: "jsval \<Rightarrow> bool" where
  "any_eligibility fd =
     (truthy (get fd ''englishLevel'') \<or> truthy (get fd ''age'') \<or> truthy (get fd ''education'')
      \<or> truthy (get fd ''experience'') \<or> truthy (get fd ''visaType''))"

definition userMailOptions :: "world \<Rightarrow> jsval \<Rightarrow> mail" where
  "userMailOptions w fd =
     \<lparr> mail_from = ''Easy Go Overseas <'' @ env_text (env_EMAIL_USER w) @ ''>'',
       mail_to = tpl w (get fd ''email''),
       mail_subject = ''Your Consultation Booking - Easy Go Overseas'' @
         (if truthy (get fd ''englishLevel'') then '' - With Eligibility Check'' else []),
       mail_text =
         ''Dear '' @ tpl w (get fd ''name'') @ '','' @ nl @ nl @
         ''Thank you for booking a consultation with Easy Go Overseas.'' @ nl @ nl @
         ''Details:'' @ nl @ ''Service: '' @ tpl w (get fd ''service'') @ nl @
         ''Date: '' @ tpl w (get fd ''preferredDate'') @ nl @
         ''State: '' @ tpl w (get fd ''state'') @ nl @
         (if any_eligibility fd
          then nl @ ''--- Canada Immigration Eligibility Details ---'' @ nl @ eligibility_lines w fd
          else []) @
         nl @ ''We will contact you soon!'' @ nl @ nl @ ''Best regards,'' @ nl @
         ''Easy Go Overseas Team'' \<rparr>"

definition adminMailOptions :: "world \<Rightarrow> jsval \<Rightarrow> mail" where
  "adminMailOptions w fd =
     \<lparr> mail_from = ''Easy Go Overseas <'' @ env_text (env_EMAIL_USER w) @ ''>'',
       mail_to = env_or (env_ADMIN_EMAIL w) (env_or (env_EMAIL_USER w) []),
       mail_subject = ''New Consultation Booking'' @
         (if truthy (get fd ''englishLevel'') then '' - With Eligibility Check'' else []),
       mail_text =
         ''A new consultation has been booked:'' @ nl @ nl @
         ''Name: '' @ tpl w (get fd ''name'') @ nl @
         ''Email: '' @ tpl w (get fd ''email'') @ nl @
         ''Phone: '' @ tpl w (get fd ''phone'') @ nl @
         ''State: '' @ tpl w (get fd ''state'') @ nl @
         ''Service: '' @ tpl w (get fd ''service'') @ nl @
         ''Date: '' @ tpl w (get fd ''preferredDate'') @ nl @
         ''Message: '' @
         (if truthy (get fd ''message'') then tpl w (get fd ''message'') else ''N/A'') @
         (if any_eligibility fd
          then nl @ nl @ ''--- Canada Immigration Eligibility Details ---'' @ nl @
               eligibility_lines w fd
          else []) \<rparr>"

definition email_warning :: string where
  "email_warning = ''Booking saved successfully, but email notifications failed. '' @
                   ''Please contact us directly if needed.''"

text \<open>
  The outbox collects the messages handed to \<open>transporter.sendMail\<close>. The second message
  is handed over only after the first was accepted.
\<close>

definition send_emails :: "world \<Rightarrow> server_state \<Rightarrow> jsval \<Rightarrow> outcome \<times> server_state" where
  "send_emails w s fd =
     (if \<not> env_set (env_EMAIL_USER w) \<or> \<not> env_set (env_EMAIL_PASS w) then
        (Response 200 (SuccessJson
           (Some ''Booking saved successfully. Email notifications are disabled.'') None), s)
      else if \<not> sendMail_user_ok w then
        (Response 200 (SuccessJson None (Some email_warning)),
         s\<lparr>outbox := outbox s @ [userMailOptions w fd]\<rparr>)
      else if \<not> sendMail_admin_ok w then
        (Response 200 (SuccessJson None (Some email_warning)),
         s\<lparr>outbox := outbox s @ [userMailOptions w fd, adminMailOptions w fd]\<rparr>)
      else
        (Response 200 (SuccessJson None None),
         s\<lparr>outbox := outbox s @ [userMailOptions w fd, adminMailOptions w fd]\<rparr>))"

subsection \<open>The handler\<close>

definition book_consultation :: "world \<Rightarrow> server_state \<Rightarrow> jsval \<Rightarrow> outcome \<times> server_state" where
  "book_consultation w s req_body =
     (case decode_request w req_body of
        Inl r \<Rightarrow> (r, s)
      | Inr formData \<Rightarrow>
          (case validate_fields w (form_fields formData) of
             Some r \<Rightarrow> (r, s)
           | None \<Rightarrow>
               (case check_conflict w s (form_fields formData) of
                  (Some r, s1) \<Rightarrow> (r, s1)
                | (None, s1) \<Rightarrow>
                    (case store_booking w s1 (form_fields formData) of
                       (Some r, s2) \<Rightarrow> (r, s2)
                     | (None, s2) \<Rightarrow> send_emails w s2 (form_fields formData)))))"

text \<open>Requests handled one after the other, each with its own surroundings.\<close>

fun run :: "server_state \<Rightarrow> (world \<times> jsval) list \<Rightarrow> server_state" where
  "run s [] = s"
| "run s ((w, req_body) # rest) = run (snd (book_consultation w s req_body)) rest"

section \<open>The client: validateForm and the payload of handleSubmit\<close>

text \<open>
  The form state holds a string for each of the twelve fields (\<open>initialFormData\<close> and the
  change handlers only ever store strings), so it is a \<open>booking\<close> record; a field that was
  not filled in is the empty string. The result of \<open>validateForm\<close> is the \<open>errors\<close> object,
  as a list of keys with their messages.
\<close>

definition name_errors :: "booking \<Rightarrow> (string \<times> string) list" where
  "name_errors data =
     (if trim (name data) = [] then [(''name'', ''Name is required'')]
      else if \<not> nameRegex_test (trim (name data))
      then [(''name'', ''Name must contain only letters and spaces (2-50 characters)'')]
      else [])"

definition email_errors :: "booking \<Rightarrow> (string \<times> string) list" where
  "email_errors data =
     (if trim (email data) = [] then [(''email'', ''Email is required'')]
      else if \<not> emailRegex_test (trim (email data))
      then [(''email'', ''Please enter a valid email address'')]
      else [])"

definition phone_errors :: "booking \<Rightarrow> (string \<times> string) list" where
  "phone_errors data =
     (if trim (phone data) = [] then [(''phone'', ''Phone number is required'')]
      else if \<not> phoneRegex_test (trim (phone data))
      then [(''phone'', ''Please enter a valid phone number (10-15 digits)'')]
      else [])"

definition service_errors :: "booking \<Rightarrow> (string \<times> string) list" where
  "service_errors data =
     (if service data = [] then [(''service'', ''Please select a service'')] else [])"

definition eligibility_errors :: "booking \<Rightarrow> (string \<times> string) list" where
  "eligibility_errors data =
     (if englishLevel data = [] then [(''englishLevel'', ''English level is required'')] else []) @
     (if age data = [] then [(''age'', ''Age is required'')] else []) @
     (if education data = [] then [(''education'', ''Education is required'')] else []) @
     (if experience data = [] then [(''experience'', ''Experience is required'')] else []) @
     (if visaType data = [] then [(''visaType'', ''Visa type is required'')] else [])"

text \<open>
  An unparseable date makes \<open>selectedDate\<close> NaN and \<open>selectedDate < today\<close> false: the
  client reports nothing for it.
\<close>

definition date_errors :: "world \<Rightarrow> booking \<Rightarrow> (string \<times> string) list" where
  "date_errors w data =
     (if preferredDate data = [] then [(''preferredDate'', ''Please select a preferred date'')]
      else
        (case Date_getTime w (JString (preferredDate data)) of
           None \<Rightarrow> []
         | Some selectedDate \<Rightarrow>
             if date_less (setHours0 w selectedDate) (setHours0 w (now_ms w))
             then [(''preferredDate'', ''Please select future date'')] else []))"

definition message_errors :: "booking \<Rightarrow> (string \<times> string) list" where
  "message_errors data =
     (if message data \<noteq> [] \<and> length (message data) > 500
      then [(''message'', ''Message must be less than 500 characters'')] else [])"

definition validateForm :: "world \<Rightarrow> booking \<Rightarrow> (string \<times> string) list" where
  "validateForm w data =
     name_errors data @ email_errors data @ phone_errors data @ service_errors data @
     eligibility_errors data @ date_errors w data @ message_errors data"

text \<open>The form state as the JSON object that is serialised and sent.\<close>

definition formData_json :: "booking \<Rightarrow> jsval" where
  "formData_json data =
     JObject [(''name'', JString (name data)), (''email'', JString (email data)),
              (''phone'', JString (phone data)), (''state'', JString (state data)),
              (''service'', JString (service data)),
              (''preferredDate'', JString (preferredDate data)),
              (''message'', JString (message data)),
              (''englishLevel'', JString (englishLevel data)), (''age'', JString (age data)),
              (''education'', JString (education data)),
              (''experience'', JString (experience data)),
              (''visaType'', JString (visaType data))]"

text \<open>
  The \<open>payload\<close> of \<open>handleSubmit\<close>: encrypted and wrapped in production, the form data
  itself in development. What \<open>fetch\<close> and \<open>express.json()\<close> do in between (serialise the
  payload and parse it again) is taken as the identity on JSON values.
\<close>

definition encode_payload :: "world \<Rightarrow> jsval \<Rightarrow> jsval" where
  "encode_payload w formData =
     (if isProduction w then
        JObject [(''encrypted'',
                  JString (AES_encrypt w (JSON_stringify w formData) (client_SECRET_KEY w)))]
      else formData)"

text \<open>\<open>handleSubmit\<close> sends nothing when the validator reports an error.\<close>

definition handleSubmit :: "world \<Rightarrow> booking \<Rightarrow> jsval option" where
  "handleSubmit w data =
     (if validateForm w data \<noteq> [] then None else Some (encode_payload w (formData_json data)))"

section \<open>The earlier variant of the handler\<close>

text \<open>
  The earlier server file has the same route over the earlier Booking schema (six paths,
  \<open>message\<close> not required). It has no \<open>try\<close> around the two database calls, so an
  exception there leaves the handler; its key is the literal.
\<close>

datatype booking_v1 =
  Booking_v1 (v1_name: string) (v1_email: string) (v1_phone: string) (v1_service: string)
    (v1_preferredDate: string) (v1_message: "string option")

record server_state_v1 =
  store_v1 :: "booking_v1 list"
  outbox_v1 :: "mail list"

definition decode_request_v1 :: "world \<Rightarrow> jsval \<Rightarrow> outcome + jsval" where
  "decode_request_v1 w req_body =
     (if truthy (get req_body ''encrypted'') then
        (case AES_decrypt_Utf8 w (get req_body ''encrypted'') ''EasyGoAdvisor@1974'' of
           None \<Rightarrow> Inl (Response 400 (ErrorJson ''Invalid data.''))
         | Some decryptedString \<Rightarrow>
             (case JSON_parse w decryptedString of
                None \<Rightarrow> Inl (Response 400 (ErrorJson ''Invalid data.''))
              | Some formData \<Rightarrow> Inr formData))
      else Inr req_body)"

definition new_Booking_v1 :: "world \<Rightarrow> jsval \<Rightarrow> booking_v1 option" where
  "new_Booking_v1 w d = do {
     n \<leftarrow> cast_String w (get d ''name'');
     e \<leftarrow> cast_String w (get d ''email'');
     p \<leftarrow> cast_String w (get d ''phone'');
     sv \<leftarrow> cast_String w (get d ''service'');
     pd \<leftarrow> cast_String w (get d ''preferredDate'');
     m \<leftarrow> (if get d ''message'' = JUndefined \<or> get d ''message'' = JNull then Some None
           else map_option Some (cast_String w (get d ''message'')));
     Some (Booking_v1 n e p sv pd m)
   }"

definition findOneBooking_v1 :: "world \<Rightarrow> booking_v1 list \<Rightarrow> jsval \<Rightarrow> booking_v1 option option" where
  "findOneBooking_v1 w bs query =
     (if \<not> db_find_ok w then None
      else do {
        pd \<leftarrow> query_String w (get query ''preferredDate'');
        e \<leftarrow> query_String w (get query ''email'');
        Some (find (\<lambda>b. pd (v1_preferredDate b) \<and> e (v1_email b)) bs)
      })"

definition insertBooking_v1 :: "world \<Rightarrow> booking_v1 list \<Rightarrow> jsval \<Rightarrow> booking_v1 list option" where
  "insertBooking_v1 w bs d =
     (case new_Booking_v1 w d of
        None \<Rightarrow> None
      | Some b \<Rightarrow>
          if v1_name b \<noteq> [] \<and> v1_email b \<noteq> [] \<and> v1_phone b \<noteq> [] \<and> v1_service b \<noteq> [] \<and>
             v1_preferredDate b \<noteq> [] \<and> db_save_ok w
          then Some (bs @ [b]) else None)"

definition userMailOptions_v1 :: "world \<Rightarrow> jsval \<Rightarrow> mail" where
  "userMailOptions_v1 w fd =
     \<lparr> mail_from = ''Easy Go Overseas <'' @ env_text (env_EMAIL_USER w) @ ''>'',
       mail_to = tpl w (get fd ''email''),
       mail_subject = ''Your Consultation Booking - Easy Go Overseas'',
       mail_text =
         ''Dear '' @ tpl w (get fd ''name'') @ '','' @ nl @ nl @
         ''Thank you for booking a consultation with Easy Go Overseas.'' @ nl @ nl @
         ''Details:'' @ nl @ ''Service: '' @ tpl w (get fd ''service'') @ nl @
         ''Date: '' @ tpl w (get fd ''preferredDate'') @ nl @ nl @
         ''We will contact you soon!'' @ nl @ nl @ ''Best regards,'' @ nl @
         ''Easy Go Overseas Team'' \<rparr>"

definition adminMailOptions_v1 :: "world \<Rightarrow> jsval \<Rightarrow> mail" where
  "adminMailOptions_v1 w fd =
     \<lparr> mail_from = ''Easy Go Overseas <'' @ env_text (env_EMAIL_USER w) @ ''>'',
       mail_to = env_or (env_ADMIN_EMAIL w) (env_or (env_EMAIL_USER w) []),
       mail_subject = ''New Consultation Booking'',
       mail_text =
         ''A new consultation has been booked:'' @ nl @ nl @
         ''Name: '' @ tpl w (get fd ''name'') @ nl @
         ''Email: '' @ tpl w (get fd ''email'') @ nl @
         ''Phone: '' @ tpl w (get fd ''phone'') @ nl @
         ''Service: '' @ tpl w (get fd ''service'') @ nl @
         ''Date: '' @ tpl w (get fd ''preferredDate'') @ nl @
         ''Message: '' @
         (if truthy (get fd ''message'') then tpl w (get fd ''message'') else ''N/A'') \<rparr>"

definition send_emails_v1 :: "world \<Rightarrow> server_state_v1 \<Rightarrow> jsval \<Rightarrow> outcome \<times> server_state_v1" where
  "send_emails_v1 w s fd =
     (if \<not> sendMail_user_ok w then
        (Response 500 (ErrorJson ''Failed to send emails.''),
         s\<lparr>outbox_v1 := outbox_v1 s @ [userMailOptions_v1 w fd]\<rparr>)
      else if \<not> sendMail_admin_ok w then
        (Response 500 (ErrorJson ''Failed to send emails.''),
         s\<lparr>outbox_v1 := outbox_v1 s @ [userMailOptions_v1 w fd, adminMailOptions_v1 w fd]\<rparr>)
      else
        (Response 200 (SuccessJson None None),
         s\<lparr>outbox_v1 := outbox_v1 s @ [userMailOptions_v1 w fd, adminMailOptions_v1 w fd]\<rparr>))"

definition book_consultation_v1 :: "world \<Rightarrow> server_state_v1 \<Rightarrow> jsval \<Rightarrow> outcome \<times> server_state_v1" where
  "book_consultation_v1 w s req_body =
     (case decode_request_v1 w req_body of
        Inl r \<Rightarrow> (r, s)
      | Inr fd \<Rightarrow>
          if fd = JNull \<or> fd = JUndefined then (Unhandled, s)
          else if \<not> truthy (get fd ''name'') \<or> \<not> truthy (get fd ''email'') \<or>
                  \<not> truthy (get fd ''phone'') \<or> \<not> truthy (get fd ''service'') \<or>
                  \<not> truthy (get fd ''preferredDate'')
          then (Response 400 (ErrorJson ''Missing required fields.''), s)
          else
            (case date_policy w (get fd ''preferredDate'') of
               Some r \<Rightarrow> (r, s)
             | None \<Rightarrow>
                 (case call_method toLowerCase (get fd ''email'') of
                    None \<Rightarrow> (Unhandled, s)
                  | Some e \<Rightarrow>
                      (case findOneBooking_v1 w (store_v1 s)
                              (JObject [(''preferredDate'', get fd ''preferredDate''),
                                        (''email'', JString e)]) of
                         None \<Rightarrow> (Unhandled, s)
                       | Some (Some conflict) \<Rightarrow>
                           (Response 409 (ErrorJson
                              ''You have already booked a consultation for this date with this email.''),
                            s)
                       | Some None \<Rightarrow>
                           (case insertBooking_v1 w (store_v1 s)
                                   (JObject [(''name'', get fd ''name''), (''email'', JString e),
                                             (''phone'', get fd ''phone''),
                                             (''service'', get fd ''service''),
                                             (''preferredDate'', get fd ''preferredDate''),
                                             (''message'', get fd ''message'')]) of
                              None \<Rightarrow> (Unhandled, s)
                            | Some bs \<Rightarrow> send_emails_v1 w (s\<lparr>store_v1 := bs\<rparr>) fd)))))"

section \<open>Notions the properties are stated with\<close>

text \<open>The calendar day, counted from the epoch, on which a time value falls in local time.\<close>

definition local_day :: "world \<Rightarrow> int \<Rightarrow> int" where
  "local_day w t = (t + LocalTZA w t True) div msPerDay"

text \<open>The pair on which the pipeline keeps bookings apart.\<close>

definition booking_key :: "booking \<Rightarrow> string \<times> string" where
  "booking_key b = (email b, preferredDate b)"

definition no_duplicates :: "booking list \<Rightarrow> bool" where
  "no_duplicates bs = distinct (map booking_key bs)"

section \<open>Concrete surroundings and requests for the examples\<close>

text \<open>
  A server in the zone UTC+05:30 at 2030-01-15 09:30 UTC, in development mode, without
  mail credentials, with a database that answers. \<open>sample_Date_getTime\<close> lists what
  \<open>new Date(s).getTime()\<close> is for the date strings of the examples (a date-only ISO string
  is midnight UTC). The cipher and the serialiser are stand-ins that are inverse to their
  counterparts on the example data.
\<close>

definition sample_Date_getTime :: "jsval \<Rightarrow> int option" where
  "sample_Date_getTime v =
     (if v = JString ''2030-01-15'' then Some 1894665600000
      else if v = JString ''2030-01-15T00:00:00.000Z'' then Some 1894665600000
      else if v = JString ''2030-01-14'' then Some 1894579200000
      else None)"

definition sample_AES_encrypt :: "string \<Rightarrow> string \<Rightarrow> string" where
  "sample_AES_encrypt s k = rev s @ k"

fun sample_AES_decrypt_Utf8 :: "jsval \<Rightarrow> string \<Rightarrow> string option" where
  "sample_AES_decrypt_Utf8 (JString c) k =
     (if length k \<le> length c \<and> drop (length c - length k) c = k
      then Some (rev (take (length c - length k) c)) else Some [])"
| "sample_AES_decrypt_Utf8 v k = None"

definition jane :: booking where
  "jane = \<lparr> name = ''Jane Doe'', email = ''JANE@x.com'', phone = ''1234567890'',
            state = ''Gujarat'', service = ''visa-processing'', preferredDate = ''2030-01-15'',
            message = [], englishLevel = ''Good (7 Band)'', age = ''18-35 years'',
            education = ''Graduation'', experience = ''1 year'', visaType = ''Work Permit'' \<rparr>"

definition jane_text :: string where
  "jane_text = ''{name:Jane Doe,email:JANE@x.com,phone:1234567890,state:Gujarat,...}''"

definition sample_JSON_stringify :: "jsval \<Rightarrow> string" where
  "sample_JSON_stringify v = (if v = formData_json jane then jane_text else ''null'')"

definition sample_JSON_parse :: "string \<Rightarrow> jsval option" where
  "sample_JSON_parse s =
     (if s = jane_text then Some (formData_json jane)
      else if s = ''null'' then Some JNull else None)"

definition world0 :: world where
  "world0 =
     \<lparr> env_SECRET_KEY = None, env_EMAIL_USER = None, env_EMAIL_PASS = None,
       env_ADMIN_EMAIL = None, env_REACT_APP_SECRET_KEY = None, isProduction = False,
       now_ms = 1894699800000, LocalTZA = (\<lambda>t isUTC. 19800000),
       Date_getTime = sample_Date_getTime,
       AES_encrypt = sample_AES_encrypt, AES_decrypt_Utf8 = sample_AES_decrypt_Utf8,
       JSON_stringify = sample_JSON_stringify, JSON_parse = sample_JSON_parse,
       mongoose_cast = (\<lambda>v. None), mongoose_query = (\<lambda>v. None),
       template_text = (\<lambda>v. []),
       db_find_ok = True, db_save_ok = True,
       sendMail_user_ok = True, sendMail_admin_ok = True \<rparr>"

text \<open>The same server with mail credentials and a transport that refuses both messages.\<close>

definition world_mail_down :: world where
  "world_mail_down =
     world0\<lparr> env_EMAIL_USER := Some ''office@easygo.example'', env_EMAIL_PASS := Some ''secret'',
             sendMail_user_ok := False, sendMail_admin_ok := False \<rparr>"

definition empty_state :: server_state where
  "empty_state = \<lparr> store = [], db_calls = [], outbox = [] \<rparr>"

text \<open>Jane's booking as the handler stores it, and a server that already holds it.\<close>

definition jane_stored :: booking where
  "jane_stored = jane\<lparr> email := ''jane@x.com'' \<rparr>"

definition jane_state :: server_state where
  "jane_state = \<lparr> store = [jane_stored], db_calls = [], outbox = [] \<rparr>"

definition empty_state_v1 :: server_state_v1 where
  "empty_state_v1 = \<lparr> store_v1 = [], outbox_v1 = [] \<rparr>"

text \<open>Jane's form again, with another name, phone number and message.\<close>

definition jane_again :: booking where
  "jane_again = jane\<lparr> name := ''J Doe'', phone := ''+91 98765 43210'', message := ''call me'' \<rparr>"

text \<open>The document that step 4 builds and casts from a form whose fields are strings.\<close>

definition stored_form :: "booking \<Rightarrow> booking" where
  "stored_form data =
     \<lparr> name = trim (name data), email = trim (toLowerCase (email data)),
       phone = trim (phone data), state = trim (state data), service = service data,
       preferredDate = preferredDate data, message = trim (message data),
       englishLevel = trim (englishLevel data), age = trim (age data),
       education = trim (education data), experience = trim (experience data),
       visaType = trim (visaType data) \<rparr>"

text \<open>A form that breaks the three rules only the client has.\<close>

definition jane_sloppy :: booking where
  "jane_sloppy = jane\<lparr> name := ''J4ne'', phone := ''12345'', message := replicate 501 (CHR ''x'') \<rparr>"

text \<open>The keys of the client's rules that the server has as well.\<close>

definition shared_rule_keys :: "string list" where
  "shared_rule_keys = [''email'', ''service'', ''englishLevel'', ''age'', ''education'',
                       ''experience'', ''visaType'', ''preferredDate'']"

text \<open>
  A server five hours west of UTC at noon local time on 2030-01-15 (17:00 UTC), otherwise
  like the example server.
\<close>

definition world_west :: world where
  "world_west = world0\<lparr> now_ms := 1894726800000, LocalTZA := (\<lambda>t isUTC. - 18000000) \<rparr>"

section \<open>Auxiliary facts\<close>

lemma SECRET_KEY_nonempty: "SECRET_KEY w \<noteq> []"
  by (cases "env_SECRET_KEY w") (simp_all add: SECRET_KEY_def)

lemma check_conflict_keeps:
  "check_conflict w s fd = (r, s1) \<Longrightarrow> store s1 = store s \<and> outbox s1 = outbox s"
  by (auto simp: check_conflict_def split: option.splits)

lemma store_booking_None:
  "store_booking w s fd = (None, s2) \<Longrightarrow>
   \<exists>d b. insert_data fd = Some d \<and> new_Booking w d = Some b \<and> required_paths_ok b \<and>
         db_save_ok w \<and>
         s2 = s\<lparr>store := store s @ [b], db_calls := db_calls s @ [Insert d]\<rparr>"
  by (auto simp: store_booking_def insertBooking_def split: option.splits if_splits)

lemma store_booking_Some:
  "store_booking w s fd = (Some r, s2) \<Longrightarrow> store s2 = store s \<and> outbox s2 = outbox s"
  by (auto simp: store_booking_def split: option.splits)

lemma send_emails_store: "store (snd (send_emails w s fd)) = store s"
  by (simp add: send_emails_def)

lemma book_consultation_persisted:
  assumes "decode_request w req_body = Inr formData"
      and "validate_fields w (form_fields formData) = None"
      and "check_conflict w s (form_fields formData) = (None, s1)"
      and "store_booking w s1 (form_fields formData) = (None, s2)"
  shows "book_consultation w s req_body = send_emails w s2 (form_fields formData)"
  using assms by (simp add: book_consultation_def)

section \<open>Notification failure after a successful insert (C1)\<close>

text \<open>
  In the current handler a booking that was stored is answered with success and the
  warning when the transport refuses the messages, and the new document stays in the
  store.
\<close>

lemma notify_failure_still_accepted:
  assumes "decode_request w req_body = Inr formData"
      and "validate_fields w (form_fields formData) = None"
      and "check_conflict w s (form_fields formData) = (None, s1)"
      and "store_booking w s1 (form_fields formData) = (None, s2)"
      and "env_set (env_EMAIL_USER w)" and "env_set (env_EMAIL_PASS w)"
      and "\<not> sendMail_user_ok w" and "\<not> sendMail_admin_ok w"
  shows "fst (book_consultation w s req_body) = Response 200 (SuccessJson None (Some email_warning))
         \<and> (\<exists>b. store (snd (book_consultation w s req_body)) = store s @ [b])"
proof -
  have eq: "book_consultation w s req_body = send_emails w s2 (form_fields formData)"
    using assms(1-4) by (rule book_consultation_persisted)
  obtain d b where s2: "s2 = s1\<lparr>store := store s1 @ [b], db_calls := db_calls s1 @ [Insert d]\<rparr>"
    using store_booking_None [OF assms(4)] by blast
  have "store s1 = store s"
    using check_conflict_keeps [OF assms(3)] by simp
  with s2 have "store s2 = store s @ [b]" by simp
  moreover have "fst (send_emails w s2 (form_fields formData))
                 = Response 200 (SuccessJson None (Some email_warning))"
    using assms(5-8) by (simp add: send_emails_def)
  ultimately show ?thesis
    by (simp add: eq send_emails_store)
qed

lemma send_emails_v1_failure:
  "\<not> (sendMail_user_ok w \<and> sendMail_admin_ok w) \<Longrightarrow>
   fst (send_emails_v1 w s fd) = Response 500 (ErrorJson ''Failed to send emails.'')"
  by (auto simp: send_emails_v1_def)

lemma book_consultation_v1_cases:
  "book_consultation_v1 w s req_body = (r, s') \<Longrightarrow>
   s' = s \<or> (\<exists>bs fd. send_emails_v1 w (s\<lparr>store_v1 := bs\<rparr>) fd = (r, s'))"
  by (auto simp: book_consultation_v1_def split: sum.splits option.splits if_splits)

text \<open>
  Claim C1: when decoding, validation, the date and conflict checks and the insert have
  succeeded and the messages fail to be sent, the response is still a success with a
  warning and the stored booking remains. The earlier variant of the handler does not do
  this: whenever it has changed the store, that is, inserted the booking, and the
  transport refuses a message, it answers status 500 with the error
  ``Failed to send emails.''.
\<close>

theorem earlier_variant_mail_failure:
  assumes "book_consultation_v1 w s req_body = (r, s')"
      and "store_v1 s' \<noteq> store_v1 s"
      and "\<not> (sendMail_user_ok w \<and> sendMail_admin_ok w)"
  shows "r = Response 500 (ErrorJson ''Failed to send emails.'')"
proof -
  from book_consultation_v1_cases [OF assms(1)] assms(2)
  obtain bs fd where "send_emails_v1 w (s\<lparr>store_v1 := bs\<rparr>) fd = (r, s')"
    by auto
  then have "r = fst (send_emails_v1 w (s\<lparr>store_v1 := bs\<rparr>) fd)"
    by simp
  with send_emails_v1_failure [OF assms(3)] show ?thesis
    by simp
qed

text \<open>
  Jane's request on an empty store, with mail credentials set and a transport that
  refuses both messages: the earlier variant stores the booking and answers 500, the
  current handler answers success with the warning.
\<close>

theorem earlier_variant_mail_failure_witness:
  "store_v1 (snd (book_consultation_v1 world_mail_down empty_state_v1 (formData_json jane)))
     = [Booking_v1 ''Jane Doe'' ''jane@x.com'' ''1234567890'' ''visa-processing'' ''2030-01-15''
          (Some [])]
   \<and> \<not> (sendMail_user_ok world_mail_down \<and> sendMail_admin_ok world_mail_down)
   \<and> fst (book_consultation_v1 world_mail_down empty_state_v1 (formData_json jane))
     = Response 500 (ErrorJson ''Failed to send emails.'')
   \<and> fst (book_consultation world_mail_down empty_state (formData_json jane))
     = Response 200 (SuccessJson None (Some email_warning))"
proof -
  have st: "store_v1 (snd (book_consultation_v1 world_mail_down empty_state_v1 (formData_json jane)))
     = [Booking_v1 ''Jane Doe'' ''jane@x.com'' ''1234567890'' ''visa-processing'' ''2030-01-15''
          (Some [])]"
    by code_simp
  have m: "\<not> (sendMail_user_ok world_mail_down \<and> sendMail_admin_ok world_mail_down)"
    by (simp add: world_mail_down_def)
  have cur: "fst (book_consultation world_mail_down empty_state (formData_json jane))
     = Response 200 (SuccessJson None (Some email_warning))"
    by code_simp
  have "store_v1 (snd (book_consultation_v1 world_mail_down empty_state_v1 (formData_json jane)))
        \<noteq> store_v1 empty_state_v1"
    unfolding st by (simp add: empty_state_v1_def)
  from earlier_variant_mail_failure [OF prod.collapse [symmetric] this m] st m cur
  show ?thesis by simp
qed

lemma book_consultation_cases:
  assumes "book_consultation w s req_body = (r, s')"
  shows "(store s' = store s \<and> outbox s' = outbox s \<and> (\<forall>m x. r \<noteq> Response 200 (SuccessJson m x)))
         \<or> (\<exists>s2 fd b. store s2 = store s @ [b] \<and> outbox s2 = outbox s \<and>
                      send_emails w s2 fd = (r, s'))"
proof (cases "decode_request w req_body")
  case (Inl r0)
  with assms have "r = r0" and "s' = s"
    by (simp_all add: book_consultation_def)
  moreover from Inl have "\<forall>m x. r0 \<noteq> Response 200 (SuccessJson m x)"
    by (auto simp: decode_request_def split: if_splits option.splits)
  ultimately show ?thesis by simp
next
  case (Inr formData)
  show ?thesis
  proof (cases "validate_fields w (form_fields formData)")
    case (Some r0)
    with Inr assms have "r = r0" and "s' = s"
      by (simp_all add: book_consultation_def)
    moreover from Some have "\<forall>m x. r0 \<noteq> Response 200 (SuccessJson m x)"
      by (auto simp: validate_fields_def date_policy_def split: if_splits option.splits)
    ultimately show ?thesis by simp
  next
    case None
    obtain c s1 where cc: "check_conflict w s (form_fields formData) = (c, s1)"
      by (cases "check_conflict w s (form_fields formData)")
    note k1 = check_conflict_keeps [OF cc]
    show ?thesis
    proof (cases c)
      case (Some r0)
      with Inr None cc assms have "r = r0" and "s' = s1"
        by (simp_all add: book_consultation_def)
      moreover from cc Some have "\<forall>m x. r0 \<noteq> Response 200 (SuccessJson m x)"
        by (auto simp: check_conflict_def split: option.splits)
      ultimately show ?thesis using k1 by simp
    next
      case cNone: None
      obtain c2 s2 where sb: "store_booking w s1 (form_fields formData) = (c2, s2)"
        by (cases "store_booking w s1 (form_fields formData)")
      show ?thesis
      proof (cases c2)
        case (Some r0)
        with Inr None cc cNone sb assms have "r = r0" and "s' = s2"
          by (simp_all add: book_consultation_def)
        moreover from sb Some have "\<forall>m x. r0 \<noteq> Response 200 (SuccessJson m x)"
          by (auto simp: store_booking_def split: option.splits)
        moreover from sb Some have "store s2 = store s1 \<and> outbox s2 = outbox s1"
          using store_booking_Some by blast
        ultimately show ?thesis using k1 by simp
      next
        case c2None: None
        from sb c2None obtain d b where
          "s2 = s1\<lparr>store := store s1 @ [b], db_calls := db_calls s1 @ [Insert d]\<rparr>"
          using store_booking_None by blast
        then have "store s2 = store s @ [b]" and "outbox s2 = outbox s"
          using k1 by simp_all
        moreover have "send_emails w s2 (form_fields formData) = (r, s')"
          using Inr None cc cNone sb c2None assms by (simp add: book_consultation_def)
        ultimately show ?thesis by blast
      qed
    qed
  qed
qed

section \<open>Absent mail credentials (C9)\<close>

text \<open>
  Claim C9: for every booking that was persisted (the request changed the store), if
  \<open>EMAIL_USER\<close> or \<open>EMAIL_PASS\<close> is unset or empty, nothing is handed to the mail
  transport and the response is a success carrying the message that notifications are
  disabled.
\<close>

theorem notifications_disabled:
  assumes "book_consultation w s req_body = (r, s')"
      and "store s' \<noteq> store s"
      and "\<not> env_set (env_EMAIL_USER w) \<or> \<not> env_set (env_EMAIL_PASS w)"
  shows "r = Response 200 (SuccessJson
               (Some ''Booking saved successfully. Email notifications are disabled.'') None)
         \<and> outbox s' = outbox s"
proof -
  from book_consultation_cases [OF assms(1)] assms(2)
  obtain s2 fd where o: "outbox s2 = outbox s" and se: "send_emails w s2 fd = (r, s')"
    by auto
  from assms(3) have "send_emails w s2 fd = (Response 200 (SuccessJson
               (Some ''Booking saved successfully. Email notifications are disabled.'') None), s2)"
    by (auto simp: send_emails_def)
  with se o show ?thesis by simp
qed

text \<open>Jane's request on an empty store, on the server without mail credentials.\<close>

theorem notifications_disabled_witness:
  "store (snd (book_consultation world0 empty_state (formData_json jane))) = [jane_stored]
   \<and> store empty_state = []
   \<and> \<not> env_set (env_EMAIL_USER world0)
   \<and> fst (book_consultation world0 empty_state (formData_json jane))
       = Response 200 (SuccessJson
               (Some ''Booking saved successfully. Email notifications are disabled.'') None)
   \<and> outbox (snd (book_consultation world0 empty_state (formData_json jane))) = []"
proof -
  have st: "store (snd (book_consultation world0 empty_state (formData_json jane))) = [jane_stored]"
    by code_simp
  have e: "store empty_state = []" "outbox empty_state = []"
    by (simp_all add: empty_state_def)
  have c: "\<not> env_set (env_EMAIL_USER world0)"
    by (simp add: world0_def)
  have ne: "store (snd (book_consultation world0 empty_state (formData_json jane))) \<noteq> store empty_state"
    unfolding st e by simp
  from notifications_disabled [OF prod.collapse [symmetric] ne disjI1 [OF c]] st e c
  show ?thesis by simp
qed



lemma validate_fields_Unhandled:
  "validate_fields w fd = Some Unhandled \<longleftrightarrow>
   (\<not> list_ex (\<lambda>k. \<not> truthy (get fd k)) required_fields \<and> call_method trim (get fd ''email'') = None)"
  by (auto simp: validate_fields_def date_policy_def split: if_splits option.splits)

section \<open>Rejections happen before the store is touched (C4)\<close>



lemma conflict_query_strings:
  "get fd ''email'' = JString e \<Longrightarrow>
   conflict_query fd
     = Some (JObject [(''preferredDate'', get fd ''preferredDate''), (''email'', JString (toLowerCase e))])"
  by (simp add: conflict_query_def)

lemma findOneBooking_strings:
  "findOneBooking w bs (JObject [(''preferredDate'', JString d), (''email'', JString e)])
     = (if db_find_ok w then Some (find (\<lambda>b. preferredDate b = d \<and> email b = e) bs) else None)"
  by (simp add: findOneBooking_def)

lemma find_Some_ex: "find P xs = Some c \<Longrightarrow> \<exists>x \<in> set xs. P x"
  by (induction xs) (auto split: if_splits)

lemma case_find:
  "(case find P xs of None \<Rightarrow> a | Some c \<Rightarrow> b) = (if \<exists>x \<in> set xs. P x then b else a)"
proof (cases "find P xs")
  case None
  then have "\<not> (\<exists>x \<in> set xs. P x)" by (simp add: find_None_iff)
  with None show ?thesis by simp
next
  case (Some c)
  from find_Some_ex [OF this] Some show ?thesis by simp
qed

lemma check_conflict_strings:
  assumes "get fd ''email'' = JString e" and "get fd ''preferredDate'' = JString d"
  shows "fst (check_conflict w s fd) =
           (if \<not> db_find_ok w
            then Some (Response 500
                   (ErrorJson ''Database error. Please try again later or contact support.''))
            else if \<exists>b \<in> set (store s). preferredDate b = d \<and> email b = toLowerCase e
            then Some (Response 409 (ErrorJson
                   ''You have already booked a consultation for this date with this email.''))
            else None)"
proof -
  have q: "conflict_query fd
     = Some (JObject [(''preferredDate'', JString d), (''email'', JString (toLowerCase e))])"
    using assms by (simp add: conflict_query_strings)
  have "fst (check_conflict w s fd) =
          (if \<not> db_find_ok w
           then Some (Response 500
                  (ErrorJson ''Database error. Please try again later or contact support.''))
           else (case find (\<lambda>b. preferredDate b = d \<and> email b = toLowerCase e) (store s) of
                   None \<Rightarrow> None
                 | Some c \<Rightarrow> Some (Response 409 (ErrorJson
                     ''You have already booked a consultation for this date with this email.''))))"
    by (simp add: check_conflict_def q findOneBooking_strings split: option.split)
  then show ?thesis
    by (simp only: case_find)
qed

section \<open>Detecting a conflict (C3)\<close>

text \<open>
  Claim C3, amended: when the store holds a booking with email \<open>E\<close> and date \<open>D\<close>, a
  request whose email lowercases to \<open>E\<close> and whose date string is \<open>D\<close> inserts nothing,
  whatever its other fields. It is answered with the conflict (status 409) provided it
  passes the required-field, email-format and date checks and the store answers the
  query.
\<close>

theorem conflict_detected:
  assumes "decode_request w req_body = Inr formData"
      and "get (form_fields formData) ''email'' = JString e"
      and "get (form_fields formData) ''preferredDate'' = JString d"
      and "b \<in> set (store s)" and "email b = toLowerCase e" and "preferredDate b = d"
  shows "store (snd (book_consultation w s req_body)) = store s
       \<and> (validate_fields w (form_fields formData) = None \<and> db_find_ok w \<longrightarrow>
            fst (book_consultation w s req_body)
              = Response 409 (ErrorJson
                  ''You have already booked a consultation for this date with this email.''))"
proof -
  have ex: "\<exists>b \<in> set (store s). preferredDate b = d \<and> email b = toLowerCase e"
    using assms(4-6) by blast
  obtain c s1 where cc: "check_conflict w s (form_fields formData) = (c, s1)"
    by (cases "check_conflict w s (form_fields formData)")
  have c: "c = (if \<not> db_find_ok w
            then Some (Response 500
                   (ErrorJson ''Database error. Please try again later or contact support.''))
            else Some (Response 409 (ErrorJson
                   ''You have already booked a consultation for this date with this email.'')))"
    using check_conflict_strings [OF assms(2,3), of w s] ex cc by simp
  have k: "store s1 = store s"
    using check_conflict_keeps [OF cc] by simp
  show ?thesis
  proof (cases "validate_fields w (form_fields formData)")
    case (Some r)
    then show ?thesis using assms(1) by (simp add: book_consultation_def)
  next
    case None
    then show ?thesis using assms(1) cc c k by (simp add: book_consultation_def)
  qed
qed

text \<open>
  The server holds Jane's booking with the email \<open>jane@x.com\<close>; her form arrives again with
  the email in capitals and another name, phone number and message.
\<close>

theorem conflict_detected_witness:
  "decode_request world0 (formData_json jane_again) = Inr (formData_json jane_again)
   \<and> get (form_fields (formData_json jane_again)) ''email'' = JString ''JANE@x.com''
   \<and> get (form_fields (formData_json jane_again)) ''preferredDate'' = JString ''2030-01-15''
   \<and> jane_stored \<in> set (store jane_state)
   \<and> email jane_stored = toLowerCase ''JANE@x.com''
   \<and> preferredDate jane_stored = ''2030-01-15''
   \<and> validate_fields world0 (form_fields (formData_json jane_again)) = None
   \<and> db_find_ok world0
   \<and> store (snd (book_consultation world0 jane_state (formData_json jane_again)))
       = store jane_state
   \<and> fst (book_consultation world0 jane_state (formData_json jane_again))
       = Response 409 (ErrorJson
           ''You have already booked a consultation for this date with this email.'')"
proof -
  have d: "decode_request world0 (formData_json jane_again) = Inr (formData_json jane_again)"
    by code_simp
  have e: "get (form_fields (formData_json jane_again)) ''email'' = JString ''JANE@x.com''"
    by code_simp
  have p: "get (form_fields (formData_json jane_again)) ''preferredDate'' = JString ''2030-01-15''"
    by code_simp
  have m: "jane_stored \<in> set (store jane_state)"
    by (simp add: jane_state_def)
  have l: "email jane_stored = toLowerCase ''JANE@x.com''"
    by code_simp
  have pd: "preferredDate jane_stored = ''2030-01-15''"
    by (simp add: jane_stored_def jane_def)
  have v: "validate_fields world0 (form_fields (formData_json jane_again)) = None"
    by code_simp
  have f: "db_find_ok world0"
    by (simp add: world0_def)
  from conflict_detected [OF d e p m l pd] d e p m l pd v f
  show ?thesis by simp
qed

text \<open>
  The claim as stated fails on a request that differs from the stored booking in another
  field so that it no longer passes the checks (here: no phone number), and on a stored
  booking whose date has meanwhile passed: both are answered with a rejection, not with
  the conflict.
\<close>

theorem conflict_needs_valid_request_counterexample:
  "jane_stored \<in> set (store jane_state)
   \<and> toLowerCase (email (jane\<lparr>phone := []\<rparr>)) = email jane_stored
   \<and> preferredDate (jane\<lparr>phone := []\<rparr>) = preferredDate jane_stored
   \<and> fst (book_consultation world0 jane_state (formData_json (jane\<lparr>phone := []\<rparr>)))
       = Response 400
           (ErrorJson ''Missing required fields. Please fill in all required fields.'')
   \<and> fst (book_consultation world0
             \<lparr>store = [jane_stored\<lparr>preferredDate := ''2030-01-14''\<rparr>], db_calls = [], outbox = []\<rparr>
             (formData_json (jane\<lparr>preferredDate := ''2030-01-14''\<rparr>)))
       = Response 400 (ErrorJson ''Cannot book a consultation in the past.'')"
  by code_simp

lemma trim_Nil: "trim [] = []"
  by (simp add: trim_def)

lemma decode_request_form: "decode_request w (formData_json data) = Inr (formData_json data)"
  by (simp add: decode_request_def formData_json_def)

lemma form_fields_form: "form_fields (formData_json data) = formData_json data"
  by (simp add: form_fields_def formData_json_def)

lemma insert_data_form:
  "\<exists>d. insert_data (formData_json data) = Some d \<and> new_Booking w d = Some (stored_form data)"
  by (simp add: insert_data_def formData_json_def new_Booking_def stored_form_def trim_Nil)

lemma store_booking_form:
  "store_booking w s (formData_json data) = (c, s') \<Longrightarrow>
   store s' = store s \<or> store s' = store s @ [stored_form data]"
  using insert_data_form [of data w]
  by (auto simp: store_booking_def insertBooking_def split: option.splits if_splits)

lemma book_consultation_form:
  assumes "book_consultation w s (formData_json data) = (r, s')"
  shows "store s' = store s \<or>
         (store s' = store s @ [stored_form data] \<and> (\<exists>m x. r = Response 200 (SuccessJson m x)))"
proof (cases "validate_fields w (formData_json data)")
  case (Some r0)
  with assms show ?thesis
    by (simp add: book_consultation_def decode_request_form form_fields_form)
next
  case None
  obtain c s1 where cc: "check_conflict w s (formData_json data) = (c, s1)"
    by (cases "check_conflict w s (formData_json data)")
  note k1 = check_conflict_keeps [OF cc]
  show ?thesis
  proof (cases c)
    case (Some r0)
    with None cc assms k1 show ?thesis
      by (simp add: book_consultation_def decode_request_form form_fields_form)
  next
    case cNone: None
    obtain c2 s2 where sb: "store_booking w s1 (formData_json data) = (c2, s2)"
      by (cases "store_booking w s1 (formData_json data)")
    show ?thesis
    proof (cases c2)
      case (Some r0)
      with None cc cNone sb assms have "s' = s2"
        by (simp add: book_consultation_def decode_request_form form_fields_form)
      with store_booking_Some sb Some k1 show ?thesis by simp
    next
      case c2None: None
      have se: "send_emails w s2 (formData_json data) = (r, s')"
        using None cc cNone sb c2None assms
        by (simp add: book_consultation_def decode_request_form form_fields_form)
      then have "store s' = store s2"
        using send_emails_store [of w s2 "formData_json data"] by simp
      moreover from se have "\<exists>m x. r = Response 200 (SuccessJson m x)"
        by (auto simp: send_emails_def split: if_splits)
      moreover note store_booking_form [OF sb] k1
      ultimately show ?thesis by auto
    qed
  qed
qed

lemma stored_form_padded:
  "booking_key (stored_form (data\<lparr>email := CHR '' '' # email data\<rparr>)) = booking_key (stored_form data)"
  by (simp add: booking_key_def stored_form_def trim_def toLowerCase_def lower_char_def
                upper_letters_def lower_letters_def is_space_def)

section \<open>Uniqueness of the pair of email and date (C2)\<close>

text \<open>
  Claim C2: handling requests one after the other never leaves two stored bookings with
  the same pair of email and preferred date, also for emails with surrounding white
  space. The handler breaks this. The conflict query uses the lowercased email as it was
  sent, the insert stores it trimmed: whenever a form and then the same form with a space
  in front of the email are both stored, the store holds two bookings with the same pair,
  and the second request was answered with success.
\<close>

theorem padded_email_stored_twice:
  assumes "book_consultation w1 s (formData_json data) = (r1, s1)"
      and "book_consultation w2 s1 (formData_json (data\<lparr>email := CHR '' '' # email data\<rparr>)) = (r2, s2)"
      and "store s1 \<noteq> store s" and "store s2 \<noteq> store s1"
  shows "s2 = run s [(w1, formData_json data),
                     (w2, formData_json (data\<lparr>email := CHR '' '' # email data\<rparr>))]
       \<and> (\<exists>m x. r2 = Response 200 (SuccessJson m x))
       \<and> \<not> no_duplicates (store s2)"
proof -
  from book_consultation_form [OF assms(1)] assms(3)
  have a: "store s1 = store s @ [stored_form data]" by simp
  from book_consultation_form [OF assms(2)] assms(4)
  have b: "store s2 = store s1 @ [stored_form (data\<lparr>email := CHR '' '' # email data\<rparr>)]"
    and r: "\<exists>m x. r2 = Response 200 (SuccessJson m x)" by simp_all
  from a b have "\<not> no_duplicates (store s2)"
    by (simp add: no_duplicates_def stored_form_padded)
  moreover have "s2 = run s [(w1, formData_json data),
                     (w2, formData_json (data\<lparr>email := CHR '' '' # email data\<rparr>))]"
    using assms(1,2) by simp
  ultimately show ?thesis using r by simp
qed

text \<open>
  Jane's form and then the same form with \<open>'' JANE@x.com''\<close>, from an empty store: both
  are stored, as two copies of the same document.
\<close>

theorem padded_email_stored_twice_witness:
  "no_duplicates (store empty_state)
   \<and> store (snd (book_consultation world0 empty_state (formData_json jane))) = [jane_stored]
   \<and> store (snd (book_consultation world0
               (snd (book_consultation world0 empty_state (formData_json jane)))
               (formData_json (jane\<lparr>email := CHR '' '' # email jane\<rparr>))))
       = [jane_stored, jane_stored]
   \<and> \<not> no_duplicates (store (run empty_state
          [(world0, formData_json jane),
           (world0, formData_json (jane\<lparr>email := CHR '' '' # email jane\<rparr>))]))"
proof -
  let ?b1 = "formData_json jane"
  let ?b2 = "formData_json (jane\<lparr>email := CHR '' '' # email jane\<rparr>)"
  let ?s1 = "snd (book_consultation world0 empty_state ?b1)"
  let ?s2 = "snd (book_consultation world0 ?s1 ?b2)"
  have e: "store empty_state = []" by (simp add: empty_state_def)
  have n: "no_duplicates (store empty_state)" by (simp add: e no_duplicates_def)
  have s1: "store ?s1 = [jane_stored]" by code_simp
  have s2: "store ?s2 = [jane_stored, jane_stored]" by code_simp
  have c1: "store ?s1 \<noteq> store empty_state" unfolding s1 e by simp
  have c2: "store ?s2 \<noteq> store ?s1" unfolding s1 s2 by simp
  from padded_email_stored_twice [OF prod.collapse [symmetric] prod.collapse [symmetric] c1 c2]
  have "\<not> no_duplicates (store (run empty_state [(world0, ?b1), (world0, ?b2)]))"
    by simp
  with n s1 s2 show ?thesis by simp
qed

lemma insert_data_email:
  assumes "get fd ''email'' = JString e" and "insert_data fd = Some d"
  shows "get d ''email'' = JString (trim (toLowerCase e))
       \<and> get d ''preferredDate'' = get fd ''preferredDate''"
  using assms
  by (auto simp: insert_data_def split: Option.bind_splits if_splits)

section \<open>What the conflict check compares (C10)\<close>

text \<open>
  Claim C10: the conflict check finds a stored booking exactly when its date string equals
  the submitted one and its email equals the submitted email lowercased, not trimmed,
  while the insert stores the lowercased and trimmed email. So a second request is stored
  next to the first, and answered with success, when its email differs from the stored one
  only by white space around it, and when its date is the same day written as another
  string.
\<close>

theorem conflict_check_compares_strings:
  "(get fd ''email'' = JString e \<and> get fd ''preferredDate'' = JString d \<and> db_find_ok w \<longrightarrow>
      (fst (check_conflict w s fd)
         = Some (Response 409 (ErrorJson
             ''You have already booked a consultation for this date with this email.''))
       \<longleftrightarrow> (\<exists>b \<in> set (store s). preferredDate b = d \<and> email b = toLowerCase e))
    \<and> (fst (check_conflict w s fd) = None
       \<longleftrightarrow> \<not> (\<exists>b \<in> set (store s). preferredDate b = d \<and> email b = toLowerCase e))
    \<and> (\<forall>data. insert_data fd = Some data \<longrightarrow>
          get data ''email'' = JString (trim (toLowerCase e)) \<and>
          get data ''preferredDate'' = JString d))
   \<and> book_consultation world0 jane_state (formData_json (jane\<lparr>email := '' jane@x.com''\<rparr>))
       = (Response 200 (SuccessJson
            (Some ''Booking saved successfully. Email notifications are disabled.'') None),
          \<lparr>store = [jane_stored, jane_stored],
           db_calls = [FindOne (JObject [(''preferredDate'', JString ''2030-01-15''),
                                         (''email'', JString '' jane@x.com'')]),
                       Insert (formData_json jane_stored)],
           outbox = []\<rparr>)
   \<and> Date_getTime world0 (JString ''2030-01-15T00:00:00.000Z'')
       = Date_getTime world0 (JString ''2030-01-15'')
   \<and> book_consultation world0 jane_state
         (formData_json (jane\<lparr>preferredDate := ''2030-01-15T00:00:00.000Z''\<rparr>))
       = (Response 200 (SuccessJson
            (Some ''Booking saved successfully. Email notifications are disabled.'') None),
          \<lparr>store = [jane_stored, jane_stored\<lparr>preferredDate := ''2030-01-15T00:00:00.000Z''\<rparr>],
           db_calls = [FindOne (JObject [(''preferredDate'', JString ''2030-01-15T00:00:00.000Z''),
                                         (''email'', JString ''jane@x.com'')]),
                       Insert (formData_json
                         (jane_stored\<lparr>preferredDate := ''2030-01-15T00:00:00.000Z''\<rparr>))],
           outbox = []\<rparr>)"
proof -
  have general: "(fst (check_conflict w s fd)
         = Some (Response 409 (ErrorJson
             ''You have already booked a consultation for this date with this email.''))
       \<longleftrightarrow> (\<exists>b \<in> set (store s). preferredDate b = d \<and> email b = toLowerCase e))
    \<and> (fst (check_conflict w s fd) = None
       \<longleftrightarrow> \<not> (\<exists>b \<in> set (store s). preferredDate b = d \<and> email b = toLowerCase e))
    \<and> (\<forall>data. insert_data fd = Some data \<longrightarrow>
          get data ''email'' = JString (trim (toLowerCase e)) \<and>
          get data ''preferredDate'' = JString d)"
    if h: "get fd ''email'' = JString e" "get fd ''preferredDate'' = JString d" "db_find_ok w"
  proof -
    have "fst (check_conflict w s fd) =
            (if \<exists>b \<in> set (store s). preferredDate b = d \<and> email b = toLowerCase e
             then Some (Response 409 (ErrorJson
                    ''You have already booked a consultation for this date with this email.''))
             else None)"
      using check_conflict_strings [OF h(1,2), of w s] h(3) by simp
    moreover have "\<forall>data. insert_data fd = Some data \<longrightarrow>
          get data ''email'' = JString (trim (toLowerCase e)) \<and>
          get data ''preferredDate'' = JString d"
      using insert_data_email [OF h(1)] h(2) by simp
    ultimately show ?thesis by simp
  qed
  have padded: "book_consultation world0 jane_state (formData_json (jane\<lparr>email := '' jane@x.com''\<rparr>))
       = (Response 200 (SuccessJson
            (Some ''Booking saved successfully. Email notifications are disabled.'') None),
          \<lparr>store = [jane_stored, jane_stored],
           db_calls = [FindOne (JObject [(''preferredDate'', JString ''2030-01-15''),
                                         (''email'', JString '' jane@x.com'')]),
                       Insert (formData_json jane_stored)],
           outbox = []\<rparr>)"
    by code_simp
  have same: "Date_getTime world0 (JString ''2030-01-15T00:00:00.000Z'')
       = Date_getTime world0 (JString ''2030-01-15'')"
    by (simp add: world0_def sample_Date_getTime_def)
  have other: "book_consultation world0 jane_state
         (formData_json (jane\<lparr>preferredDate := ''2030-01-15T00:00:00.000Z''\<rparr>))
       = (Response 200 (SuccessJson
            (Some ''Booking saved successfully. Email notifications are disabled.'') None),
          \<lparr>store = [jane_stored, jane_stored\<lparr>preferredDate := ''2030-01-15T00:00:00.000Z''\<rparr>],
           db_calls = [FindOne (JObject [(''preferredDate'', JString ''2030-01-15T00:00:00.000Z''),
                                         (''email'', JString ''jane@x.com'')]),
                       Insert (formData_json
                         (jane_stored\<lparr>preferredDate := ''2030-01-15T00:00:00.000Z''\<rparr>))],
           outbox = []\<rparr>)"
    by code_simp
  from general padded same other show ?thesis
    by blast
qed

text \<open>
  The general part at the padded request: no stored booking has the email with the space,
  so the check lets the request through, and the insert data carries the trimmed email,
  which is the stored one.
\<close>

theorem conflict_check_compares_strings_witness:
  "get (formData_json (jane\<lparr>email := '' jane@x.com''\<rparr>)) ''email'' = JString '' jane@x.com''
   \<and> get (formData_json (jane\<lparr>email := '' jane@x.com''\<rparr>)) ''preferredDate'' = JString ''2030-01-15''
   \<and> db_find_ok world0
   \<and> fst (check_conflict world0 jane_state (formData_json (jane\<lparr>email := '' jane@x.com''\<rparr>))) = None
   \<and> insert_data (formData_json (jane\<lparr>email := '' jane@x.com''\<rparr>))
       = Some (formData_json jane_stored)
   \<and> get (formData_json jane_stored) ''email'' = JString (trim (toLowerCase '' jane@x.com''))"
proof -
  let ?fd = "formData_json (jane\<lparr>email := '' jane@x.com''\<rparr>)"
  have e: "get ?fd ''email'' = JString '' jane@x.com''" by code_simp
  have p: "get ?fd ''preferredDate'' = JString ''2030-01-15''" by code_simp
  have f: "db_find_ok world0" by (simp add: world0_def)
  have n: "\<not> (\<exists>b \<in> set (store jane_state).
               preferredDate b = ''2030-01-15'' \<and> email b = toLowerCase '' jane@x.com'')"
    by code_simp
  have i: "insert_data ?fd = Some (formData_json jane_stored)" by code_simp
  from conflict_check_compares_strings [of ?fd "'' jane@x.com''" "''2030-01-15''" world0 jane_state]
       e p f n i
  show ?thesis by simp
qed

section \<open>Round trip of the payload codec (C5)\<close>

text \<open>
  Claim C5: decoding what the client's encoder produced gives back the payload, in
  production mode (the JSON text of the form data, AES-encrypted under the shared key and
  wrapped as \<open>{encrypted: ciphertext}\<close>) and in development mode (the form data itself).
  The cipher and the JSON serialiser are library code; what the round trip needs from them
  is stated as hypotheses: decryption under the key inverts encryption, parsing inverts
  serialising, and neither the ciphertext nor the JSON text is the empty string.
\<close>

theorem codec_round_trip:
  assumes "client_SECRET_KEY w = SECRET_KEY w"
      and "AES_decrypt_Utf8 w
             (JString (AES_encrypt w (JSON_stringify w (formData_json data)) (SECRET_KEY w)))
             (SECRET_KEY w)
           = Some (JSON_stringify w (formData_json data))"
      and "AES_encrypt w (JSON_stringify w (formData_json data)) (SECRET_KEY w) \<noteq> []"
      and "JSON_parse w (JSON_stringify w (formData_json data)) = Some (formData_json data)"
      and "JSON_stringify w (formData_json data) \<noteq> []"
  shows "decode_request w (encode_payload (w\<lparr>isProduction := True\<rparr>) (formData_json data))
           = Inr (formData_json data)
       \<and> decode_request w (encode_payload (w\<lparr>isProduction := False\<rparr>) (formData_json data))
           = Inr (formData_json data)"
proof -
  have dev: "encode_payload (w\<lparr>isProduction := False\<rparr>) (formData_json data) = formData_json data"
    by (simp add: encode_payload_def)
  have prod: "encode_payload (w\<lparr>isProduction := True\<rparr>) (formData_json data)
        = JObject [(''encrypted'',
             JString (AES_encrypt w (JSON_stringify w (formData_json data)) (SECRET_KEY w)))]"
    using assms(1) by (simp add: encode_payload_def client_SECRET_KEY_def)
  have "decode_request w (JObject [(''encrypted'',
             JString (AES_encrypt w (JSON_stringify w (formData_json data)) (SECRET_KEY w)))])
        = Inr (formData_json data)"
    using assms(2-5) by (simp add: decode_request_def SECRET_KEY_nonempty)
  then show ?thesis
    by (simp add: dev prod decode_request_form)
qed

text \<open>
  Jane's form on the example server, where neither side sets a key, so that both use the
  literal.
\<close>

theorem codec_round_trip_witness:
  "client_SECRET_KEY world0 = SECRET_KEY world0
   \<and> AES_decrypt_Utf8 world0
        (JString (AES_encrypt world0 (JSON_stringify world0 (formData_json jane))
                    (SECRET_KEY world0)))
        (SECRET_KEY world0)
      = Some (JSON_stringify world0 (formData_json jane))
   \<and> AES_encrypt world0 (JSON_stringify world0 (formData_json jane)) (SECRET_KEY world0) \<noteq> []
   \<and> JSON_parse world0 (JSON_stringify world0 (formData_json jane)) = Some (formData_json jane)
   \<and> JSON_stringify world0 (formData_json jane) \<noteq> []
   \<and> decode_request world0
        (encode_payload (world0\<lparr>isProduction := True\<rparr>) (formData_json jane))
      = Inr (formData_json jane)
   \<and> decode_request world0
        (encode_payload (world0\<lparr>isProduction := False\<rparr>) (formData_json jane))
      = Inr (formData_json jane)"
proof -
  have k: "client_SECRET_KEY world0 = SECRET_KEY world0"
    by (simp add: client_SECRET_KEY_def SECRET_KEY_def world0_def)
  have a: "AES_decrypt_Utf8 world0
        (JString (AES_encrypt world0 (JSON_stringify world0 (formData_json jane))
                    (SECRET_KEY world0)))
        (SECRET_KEY world0)
      = Some (JSON_stringify world0 (formData_json jane))"
    by code_simp
  have c: "AES_encrypt world0 (JSON_stringify world0 (formData_json jane)) (SECRET_KEY world0) \<noteq> []"
    by code_simp
  have j: "JSON_parse world0 (JSON_stringify world0 (formData_json jane)) = Some (formData_json jane)"
    by code_simp
  have n: "JSON_stringify world0 (formData_json jane) \<noteq> []"
    by code_simp
  from codec_round_trip [OF k a c j n] k a c j n
  show ?thesis by simp
qed

lemma emailRegex_test_Nil: "\<not> emailRegex_test []"
  by (simp add: emailRegex_test_def)

lemma validate_fields_form:
  "validate_fields w (formData_json data) =
     (if name data = [] \<or> email data = [] \<or> phone data = [] \<or> state data = [] \<or>
         service data = [] \<or> preferredDate data = [] \<or> englishLevel data = [] \<or>
         age data = [] \<or> education data = [] \<or> experience data = [] \<or> visaType data = []
      then Some (Response 400
             (ErrorJson ''Missing required fields. Please fill in all required fields.''))
      else if \<not> emailRegex_test (trim (email data))
      then Some (Response 400 (ErrorJson ''Invalid email format.''))
      else date_policy w (JString (preferredDate data)))"
  by (simp add: validate_fields_def formData_json_def required_fields_def)

lemma date_policy_Some: "date_policy w pd = Some r \<Longrightarrow> \<exists>m. r = Response 400 (ErrorJson m)"
  by (auto simp: date_policy_def split: option.splits if_splits)

lemma book_consultation_form_rejected:
  assumes "validate_fields w (formData_json data) \<noteq> None"
  shows "\<exists>m. book_consultation w s (formData_json data) = (Response 400 (ErrorJson m), s)"
proof -
  from assms obtain r where r: "validate_fields w (formData_json data) = Some r"
    by auto
  then have "\<exists>m. r = Response 400 (ErrorJson m)"
    by (auto simp: validate_fields_form dest: date_policy_Some split: if_splits)
  moreover from r have "book_consultation w s (formData_json data) = (r, s)"
    by (simp add: book_consultation_def decode_request_form form_fields_form)
  ultimately show ?thesis by auto
qed

lemma keys_validateForm:
  "fst ` set (validateForm w data) =
     fst ` set (name_errors data) \<union> fst ` set (email_errors data) \<union>
     fst ` set (phone_errors data) \<union> fst ` set (service_errors data) \<union>
     fst ` set (eligibility_errors data) \<union> fst ` set (date_errors w data) \<union>
     fst ` set (message_errors data)"
  by (simp add: validateForm_def image_Un Un_assoc)

lemma name_keys: "k \<in> fst ` set (name_errors data) \<Longrightarrow> k = ''name''"
  by (auto simp: name_errors_def split: if_splits)

lemma email_keys:
  "k \<in> fst ` set (email_errors data) \<Longrightarrow>
   k = ''email'' \<and> (trim (email data) = [] \<or> \<not> emailRegex_test (trim (email data)))"
  by (auto simp: email_errors_def split: if_splits)

lemma phone_keys: "k \<in> fst ` set (phone_errors data) \<Longrightarrow> k = ''phone''"
  by (auto simp: phone_errors_def split: if_splits)

lemma service_keys: "k \<in> fst ` set (service_errors data) \<Longrightarrow> k = ''service'' \<and> service data = []"
  by (auto simp: service_errors_def split: if_splits)

lemma eligibility_keys:
  "k \<in> fst ` set (eligibility_errors data) \<Longrightarrow>
   (k = ''englishLevel'' \<and> englishLevel data = []) \<or> (k = ''age'' \<and> age data = []) \<or>
   (k = ''education'' \<and> education data = []) \<or> (k = ''experience'' \<and> experience data = []) \<or>
   (k = ''visaType'' \<and> visaType data = [])"
  by (auto simp: eligibility_errors_def split: if_splits)

lemma date_keys:
  "k \<in> fst ` set (date_errors w data) \<Longrightarrow>
   k = ''preferredDate'' \<and>
   (preferredDate data = [] \<or> date_policy w (JString (preferredDate data)) \<noteq> None)"
  by (auto simp: date_errors_def date_policy_def split: if_splits option.splits)

lemma message_keys: "k \<in> fst ` set (message_errors data) \<Longrightarrow> k = ''message''"
  by (auto simp: message_errors_def split: if_splits)

lemma shared_rule_keys_others:
  "k \<in> set shared_rule_keys \<Longrightarrow> k \<noteq> ''name'' \<and> k \<noteq> ''phone'' \<and> k \<noteq> ''message''"
  unfolding shared_rule_keys_def by (elim disjE | simp)+

lemma client_error_cases:
  assumes "k \<in> fst ` set (validateForm w data)"
      and "k \<noteq> ''name''" and "k \<noteq> ''phone''" and "k \<noteq> ''message''"
  shows "k \<in> fst ` set (email_errors data) \<or> k \<in> fst ` set (service_errors data) \<or>
         k \<in> fst ` set (eligibility_errors data) \<or> k \<in> fst ` set (date_errors w data)"
proof -
  have "k \<notin> fst ` set (name_errors data)" using name_keys assms(2) by blast
  moreover have "k \<notin> fst ` set (phone_errors data)" using phone_keys assms(3) by blast
  moreover have "k \<notin> fst ` set (message_errors data)" using message_keys assms(4) by blast
  ultimately show ?thesis
    using assms(1) unfolding keys_validateForm by (simp only: Un_iff) blast
qed

section \<open>Client rules and server rules (C7)\<close>

text \<open>
  Claim C7, amended: the server has part of the client's rules. Every form for which the
  client validator reports an error under the key \<open>email\<close>, \<open>service\<close>, \<open>englishLevel\<close>,
  \<open>age\<close>, \<open>education\<close>, \<open>experience\<close>, \<open>visaType\<close> or \<open>preferredDate\<close> is rejected by
  the server as well, with status 400 and the state unchanged, when both read the same
  clock in the same zone. The name format, the phone format and the message length are
  rules of the client only.
\<close>

theorem server_rejects_shared_rules:
  assumes "k \<in> fst ` set (validateForm w data)" and "k \<in> set shared_rule_keys"
  shows "\<exists>m. book_consultation w s (formData_json data) = (Response 400 (ErrorJson m), s)"
proof -
  from shared_rule_keys_others [OF assms(2)] client_error_cases [OF assms(1)] have
    "k \<in> fst ` set (email_errors data) \<or> k \<in> fst ` set (service_errors data) \<or>
     k \<in> fst ` set (eligibility_errors data) \<or> k \<in> fst ` set (date_errors w data)"
    by blast
  then have "validate_fields w (formData_json data) \<noteq> None"
  proof (elim disjE)
    assume "k \<in> fst ` set (email_errors data)"
    from email_keys [OF this]
    have "trim (email data) = [] \<or> \<not> emailRegex_test (trim (email data))" by simp
    then have "\<not> emailRegex_test (trim (email data))"
      using emailRegex_test_Nil by auto
    then show ?thesis
      by (simp add: validate_fields_form)
  next
    assume "k \<in> fst ` set (service_errors data)"
    from service_keys [OF this] show ?thesis
      by (simp add: validate_fields_form)
  next
    assume "k \<in> fst ` set (eligibility_errors data)"
    from eligibility_keys [OF this]
    have "englishLevel data = [] \<or> age data = [] \<or> education data = [] \<or>
          experience data = [] \<or> visaType data = []" by blast
    then show ?thesis
      by (simp add: validate_fields_form)
  next
    assume "k \<in> fst ` set (date_errors w data)"
    from date_keys [OF this]
    have "preferredDate data = [] \<or> date_policy w (JString (preferredDate data)) \<noteq> None"
      by simp
    then show ?thesis
    proof
      assume "preferredDate data = []"
      then show ?thesis by (simp add: validate_fields_form)
    next
      assume "date_policy w (JString (preferredDate data)) \<noteq> None"
      then show ?thesis by (simp add: validate_fields_form)
    qed
  qed
  then show ?thesis
    by (rule book_consultation_form_rejected)
qed

text \<open>Scenario E: Jane's form with the email \<open>not-an-email\<close>.\<close>

theorem server_rejects_shared_rules_witness:
  "''email'' \<in> fst ` set (validateForm world0 (jane\<lparr>email := ''not-an-email''\<rparr>))
   \<and> ''email'' \<in> set shared_rule_keys
   \<and> book_consultation world0 empty_state (formData_json (jane\<lparr>email := ''not-an-email''\<rparr>))
       = (Response 400 (ErrorJson ''Invalid email format.''), empty_state)"
proof -
  have c: "''email'' \<in> fst ` set (validateForm world0 (jane\<lparr>email := ''not-an-email''\<rparr>))"
    by code_simp
  have k: "''email'' \<in> set shared_rule_keys"
    by (simp add: shared_rule_keys_def)
  have r: "fst (book_consultation world0 empty_state
                  (formData_json (jane\<lparr>email := ''not-an-email''\<rparr>)))
           = Response 400 (ErrorJson ''Invalid email format.'')"
    by code_simp
  from server_rejects_shared_rules [OF c k, of empty_state] r c k
  show ?thesis by auto
qed

text \<open>
  The claim as stated fails: a form with a digit in the name, a five-digit phone number
  and a message of 501 characters gets all three errors from the client validator and is
  accepted and stored by the server.
\<close>

theorem client_only_rules_counterexample:
  "validateForm world0 jane_sloppy
     = [(''name'', ''Name must contain only letters and spaces (2-50 characters)''),
        (''phone'', ''Please enter a valid phone number (10-15 digits)''),
        (''message'', ''Message must be less than 500 characters'')]
   \<and> fst (book_consultation world0 empty_state (formData_json jane_sloppy))
       = Response 200 (SuccessJson
           (Some ''Booking saved successfully. Email notifications are disabled.'') None)
   \<and> store (snd (book_consultation world0 empty_state (formData_json jane_sloppy)))
       = [stored_form jane_sloppy]"
  by code_simp

section \<open>Missing required fields (C8)\<close>

text \<open>
  Claim C8, amended: a request in which any of the eleven required fields, \<open>state\<close>
  included, is missing or empty is rejected by the server with status 400 and the one
  message ``Missing required fields. Please fill in all required fields.'', which names
  no field; the state is unchanged. For a form in which one of the ten required fields
  other than \<open>state\<close> is empty, the client validator returns an error map that contains
  that field's key.
\<close>

theorem missing_required_field:
  assumes "k \<in> set required_fields"
      and "decode_request w req_body = Inr formData"
      and "\<not> truthy (get (form_fields formData) k)"
  shows "book_consultation w s req_body
           = (Response 400
                (ErrorJson ''Missing required fields. Please fill in all required fields.''), s)
       \<and> (formData = formData_json data \<and> k \<noteq> ''state'' \<longrightarrow>
            k \<in> fst ` set (validateForm w data))"
proof -
  have "list_ex (\<lambda>k. \<not> truthy (get (form_fields formData) k)) required_fields"
    using assms(1,3) unfolding list_ex_iff by blast
  then have "validate_fields w (form_fields formData)
               = Some (Response 400
                   (ErrorJson ''Missing required fields. Please fill in all required fields.''))"
    by (simp add: validate_fields_def)
  with assms(2) have server: "book_consultation w s req_body
           = (Response 400
                (ErrorJson ''Missing required fields. Please fill in all required fields.''), s)"
    by (simp add: book_consultation_def)
  have client: "k \<in> fst ` set (validateForm w data)"
    if f: "formData = formData_json data" and ns: "k \<noteq> ''state''"
  proof -
    from assms(3) f have e: "\<not> truthy (get (formData_json data) k)"
      by (simp add: form_fields_form)
    from assms(1) ns have
      "k = ''name'' \<or> k = ''email'' \<or> k = ''phone'' \<or> k = ''service'' \<or> k = ''preferredDate'' \<or>
       k = ''englishLevel'' \<or> k = ''age'' \<or> k = ''education'' \<or> k = ''experience'' \<or>
       k = ''visaType''"
      by (auto simp: required_fields_def)
    then show ?thesis
    proof (elim disjE)
      assume "k = ''name''"
      with e have "name data = []" by (simp add: formData_json_def)
      then have "name_errors data = [(''name'', ''Name is required'')]"
        by (simp add: name_errors_def trim_Nil)
      then show ?thesis using \<open>k = ''name''\<close> by (simp add: keys_validateForm)
    next
      assume "k = ''email''"
      with e have "email data = []" by (simp add: formData_json_def)
      then have "email_errors data = [(''email'', ''Email is required'')]"
        by (simp add: email_errors_def trim_Nil)
      then show ?thesis using \<open>k = ''email''\<close> by (simp add: keys_validateForm)
    next
      assume "k = ''phone''"
      with e have "phone data = []" by (simp add: formData_json_def)
      then have "phone_errors data = [(''phone'', ''Phone number is required'')]"
        by (simp add: phone_errors_def trim_Nil)
      then show ?thesis using \<open>k = ''phone''\<close> by (simp add: keys_validateForm)
    next
      assume "k = ''service''"
      with e have "service data = []" by (simp add: formData_json_def)
      then have "service_errors data = [(''service'', ''Please select a service'')]"
        by (simp add: service_errors_def)
      then show ?thesis using \<open>k = ''service''\<close> by (simp add: keys_validateForm)
    next
      assume "k = ''preferredDate''"
      with e have "preferredDate data = []" by (simp add: formData_json_def)
      then have "date_errors w data = [(''preferredDate'', ''Please select a preferred date'')]"
        by (simp add: date_errors_def)
      then show ?thesis using \<open>k = ''preferredDate''\<close> by (simp add: keys_validateForm)
    next
      assume "k = ''englishLevel''"
      with e have "englishLevel data = []" by (simp add: formData_json_def)
      then have "''englishLevel'' \<in> fst ` set (eligibility_errors data)"
        by (simp add: eligibility_errors_def)
      then show ?thesis using \<open>k = ''englishLevel''\<close> by (simp add: keys_validateForm)
    next
      assume "k = ''age''"
      with e have "age data = []" by (simp add: formData_json_def)
      then have "''age'' \<in> fst ` set (eligibility_errors data)"
        by (simp add: eligibility_errors_def)
      then show ?thesis using \<open>k = ''age''\<close> by (simp add: keys_validateForm)
    next
      assume "k = ''education''"
      with e have "education data = []" by (simp add: formData_json_def)
      then have "''education'' \<in> fst ` set (eligibility_errors data)"
        by (simp add: eligibility_errors_def)
      then show ?thesis using \<open>k = ''education''\<close> by (simp add: keys_validateForm)
    next
      assume "k = ''experience''"
      with e have "experience data = []" by (simp add: formData_json_def)
      then have "''experience'' \<in> fst ` set (eligibility_errors data)"
        by (simp add: eligibility_errors_def)
      then show ?thesis using \<open>k = ''experience''\<close> by (simp add: keys_validateForm)
    next
      assume "k = ''visaType''"
      with e have "visaType data = []" by (simp add: formData_json_def)
      then have "''visaType'' \<in> fst ` set (eligibility_errors data)"
        by (simp add: eligibility_errors_def)
      then show ?thesis using \<open>k = ''visaType''\<close> by (simp add: keys_validateForm)
    qed
  qed
  from server client show ?thesis by blast
qed

text \<open>Jane's form without a service, on the server and in the client.\<close>

theorem missing_required_field_witness:
  "''service'' \<in> set required_fields
   \<and> decode_request world0 (formData_json (jane\<lparr>service := []\<rparr>))
       = Inr (formData_json (jane\<lparr>service := []\<rparr>))
   \<and> \<not> truthy (get (form_fields (formData_json (jane\<lparr>service := []\<rparr>))) ''service'')
   \<and> book_consultation world0 jane_state (formData_json (jane\<lparr>service := []\<rparr>))
       = (Response 400
            (ErrorJson ''Missing required fields. Please fill in all required fields.''),
          jane_state)
   \<and> ''service'' \<in> fst ` set (validateForm world0 (jane\<lparr>service := []\<rparr>))"
proof -
  have k: "''service'' \<in> set required_fields"
    by (simp add: required_fields_def)
  have d: "decode_request world0 (formData_json (jane\<lparr>service := []\<rparr>))
       = Inr (formData_json (jane\<lparr>service := []\<rparr>))"
    by (rule decode_request_form)
  have t: "\<not> truthy (get (form_fields (formData_json (jane\<lparr>service := []\<rparr>))) ''service'')"
    by code_simp
  from missing_required_field [OF k d t, of jane_state "jane\<lparr>service := []\<rparr>"] k d t
  show ?thesis by simp
qed

text \<open>
  The claim as stated fails twice on Jane's form without a state: the client validator
  returns the empty error map, and the server's answer is the one general message, not a
  map keyed by field.
\<close>

theorem missing_state_counterexample:
  "validateForm world0 (jane\<lparr>state := []\<rparr>) = []
   \<and> handleSubmit world0 (jane\<lparr>state := []\<rparr>) = Some (formData_json (jane\<lparr>state := []\<rparr>))
   \<and> book_consultation world0 empty_state (formData_json (jane\<lparr>state := []\<rparr>))
       = (Response 400
            (ErrorJson ''Missing required fields. Please fill in all required fields.''),
          empty_state)"
  by code_simp

lemma setHours0_fixed_offset:
  assumes "\<forall>t isUTC. LocalTZA w t isUTC = off"
  shows "setHours0 w t = TimeClip (local_day w t * msPerDay - off)"
  using assms by (simp add: setHours0_def local_day_def Let_def)

lemma local_day_utc_midnight_west:
  assumes "\<forall>t isUTC. LocalTZA w t isUTC = off" and "- msPerDay < off" and "off < 0"
  shows "local_day w (today * msPerDay) = today - 1"
proof -
  have "today * msPerDay + off = msPerDay * (today - 1) + (msPerDay + off)"
    by (simp add: algebra_simps)
  moreover have "0 \<le> msPerDay + off" and "msPerDay + off < msPerDay"
    using assms(2,3) by simp_all
  ultimately have "(today * msPerDay + off) div msPerDay = today - 1"
    by (rule int_div_pos_eq)
  then show ?thesis
    using assms(1) by (simp add: local_day_def)
qed

section \<open>The date rule (C6)\<close>

text \<open>
  Claim C6: a preferred date of yesterday is rejected and one of today or later passes,
  whatever the time of day on either side. The code breaks the second half west of UTC.
  The form sends the date as a date-only string, which \<open>new Date\<close> reads as midnight UTC
  of that calendar date; where local time is behind UTC that instant lies on the evening
  of the day before, \<open>setHours(0, 0, 0, 0)\<close> takes it to the local midnight of the day
  before, and the comparison with today's local midnight rejects it. So whenever the
  submitted date is midnight UTC of the server's own local calendar date \<open>today\<close> and the
  zone is a fixed offset of less than a day behind UTC, the server answers ``Cannot book a
  consultation in the past.''; the client's date rule reports the same date as not being
  in the future.
\<close>

theorem today_rejected_west_of_utc:
  assumes "Date_getTime w pd = Some (today * msPerDay)"
      and "\<forall>t isUTC. LocalTZA w t isUTC = off"
      and "- msPerDay < off" and "off < 0"
      and "local_day w (now_ms w) = today"
      and "\<bar>today\<bar> < 100000000"
  shows "date_policy w pd
           = Some (Response 400 (ErrorJson ''Cannot book a consultation in the past.''))
       \<and> (pd = JString (preferredDate data) \<and> preferredDate data \<noteq> [] \<longrightarrow>
            date_errors w data = [(''preferredDate'', ''Please select future date'')])"
proof -
  have b: "setHours0 w (today * msPerDay) = Some ((today - 1) * msPerDay - off)"
  proof -
    have "setHours0 w (today * msPerDay) = TimeClip ((today - 1) * msPerDay - off)"
      by (simp only: setHours0_fixed_offset [OF assms(2)]
                     local_day_utc_midnight_west [OF assms(2-4)])
    moreover have "\<bar>(today - 1) * msPerDay - off\<bar> \<le> 8640000000000000"
      using assms(3,4,6) by (simp add: msPerDay_def)
    ultimately show ?thesis by (simp add: TimeClip_def)
  qed
  have n: "setHours0 w (now_ms w) = Some (today * msPerDay - off)"
  proof -
    have "setHours0 w (now_ms w) = TimeClip (today * msPerDay - off)"
      by (simp only: setHours0_fixed_offset [OF assms(2)] assms(5))
    moreover have "\<bar>today * msPerDay - off\<bar> \<le> 8640000000000000"
      using assms(3,4,6) by (simp add: msPerDay_def)
    ultimately show ?thesis by (simp add: TimeClip_def)
  qed
  have "(today - 1) * msPerDay - off < today * msPerDay - off"
    by (simp add: msPerDay_def)
  then have "date_less (setHours0 w (today * msPerDay)) (setHours0 w (now_ms w))"
    by (simp only: b n date_less.simps)
  with assms(1) show ?thesis
    by (auto simp: date_policy_def date_errors_def)
qed

text \<open>
  Jane's form with the date 2030-01-15, on the server five hours west of UTC at noon of
  2030-01-15: day 21929 since the epoch on both sides, and the request is rejected.
\<close>

theorem today_rejected_west_of_utc_witness:
  "Date_getTime world_west (JString ''2030-01-15'') = Some (21929 * msPerDay)
   \<and> local_day world_west (now_ms world_west) = 21929
   \<and> date_policy world_west (JString ''2030-01-15'')
       = Some (Response 400 (ErrorJson ''Cannot book a consultation in the past.''))
   \<and> date_errors world_west jane = [(''preferredDate'', ''Please select future date'')]
   \<and> book_consultation world_west empty_state (formData_json jane)
       = (Response 400 (ErrorJson ''Cannot book a consultation in the past.''), empty_state)"
proof -
  have p: "Date_getTime world_west (JString ''2030-01-15'') = Some (21929 * msPerDay)"
    by (simp add: world_west_def world0_def sample_Date_getTime_def msPerDay_def)
  have z: "\<forall>t isUTC. LocalTZA world_west t isUTC = - 18000000"
    by (simp add: world_west_def)
  have o: "- msPerDay < (- 18000000 :: int)" "(- 18000000 :: int) < 0"
    by (simp_all add: msPerDay_def)
  have l: "local_day world_west (now_ms world_west) = 21929"
    by (simp add: local_day_def world_west_def msPerDay_def)
  have r: "\<bar>21929 :: int\<bar> < 100000000" by simp
  have j: "preferredDate jane = ''2030-01-15''" by (simp add: jane_def)
  have h: "book_consultation world_west empty_state (formData_json jane)
       = (Response 400 (ErrorJson ''Cannot book a consultation in the past.''), empty_state)"
    by code_simp
  from today_rejected_west_of_utc [OF p z o l r, of jane] p l j h
  show ?thesis by simp
qed

end
